theory Spec2Isabelle
  imports Main
begin

section \<open>Python values, exceptions and observable events\<close>

text \<open>
  A model identifier is the tuple \<^verbatim>\<open>(model_group, model_name)\<close> built in
  \<^verbatim>\<open>validate_schema\<close>; \<^verbatim>\<open>model[-1]\<close> is its second component.
\<close>

type_synonym model = "string \<times> string"

text \<open>
  The exception classes that occur. Python's built-in hierarchy is kept where the
  source depends on it: \<^verbatim>\<open>NotImplementedError\<close> is a subclass of
  \<^verbatim>\<open>RuntimeError\<close>; \<^verbatim>\<open>TypeError\<close>, \<^verbatim>\<open>KeyError\<close> and
  \<^verbatim>\<open>AttributeError\<close> are not.
  What a database driver raises is of a class of the driver's own: a subclass of
  \<^verbatim>\<open>RuntimeError\<close>, another subclass of \<^verbatim>\<open>Exception\<close>, or a class
  outside \<^verbatim>\<open>Exception\<close> (as \<^verbatim>\<open>KeyboardInterrupt\<close> is).
\<close>

datatype py_class =
    RuntimeError
  | NotImplementedError
  | TypeError
  | KeyError
  | AttributeError
  | RuntimeError_subclass string
  | Exception_subclass string
  | BaseException_subclass string

fun isinstance_RuntimeError :: "py_class \<Rightarrow> bool" where
  "isinstance_RuntimeError RuntimeError = True"
| "isinstance_RuntimeError NotImplementedError = True"
| "isinstance_RuntimeError (RuntimeError_subclass _) = True"
| "isinstance_RuntimeError _ = False"

fun isinstance_Exception :: "py_class \<Rightarrow> bool" where
  "isinstance_Exception (BaseException_subclass _) = False"
| "isinstance_Exception _ = True"

fun class_name :: "py_class \<Rightarrow> string" where
  "class_name RuntimeError = ''RuntimeError''"
| "class_name NotImplementedError = ''NotImplementedError''"
| "class_name TypeError = ''TypeError''"
| "class_name KeyError = ''KeyError''"
| "class_name AttributeError = ''AttributeError''"
| "class_name (RuntimeError_subclass name) = name"
| "class_name (Exception_subclass name) = name"
| "class_name (BaseException_subclass name) = name"

text \<open>
  An exception object: its class, the one argument it was created with, a
  \<^verbatim>\<open>message\<close> attribute of its own if its class sets one (as a driver's
  exception may), and the \<^verbatim>\<open>model\<close> attribute that \<^verbatim>\<open>execute_query\<close>
  sets (absent until then).
\<close>

record py_exception =
  cls :: py_class
  arg :: string
  own_message :: "string option"
  model_attr :: "model option"

definition raise_new :: "py_class \<Rightarrow> string \<Rightarrow> py_exception" where
  "raise_new c a = \<lparr>cls = c, arg = a, own_message = None, model_attr = None\<rparr>"

text \<open>
  \<^verbatim>\<open>e.message\<close>, which \<^verbatim>\<open>validate_schema\<close> reads. Under Python 2 every
  exception has the attribute: for an exception created with one argument it is that
  argument. Under Python 3 only an exception that sets the attribute itself has it;
  for any other the read raises \<^verbatim>\<open>AttributeError\<close>.
\<close>

definition read_message :: "bool \<Rightarrow> py_exception \<Rightarrow> py_exception + string" where
  "read_message python2 e =
     (case own_message e of
        Some m \<Rightarrow> Inr m
      | None \<Rightarrow>
          (if python2 then Inr (arg e)
           else Inl (raise_new AttributeError
                       ([CHR 0x27] @ class_name (cls e) @ [CHR 0x27]
                        @ '' object has no attribute '' @ [CHR 0x27] @ ''message'' @ [CHR 0x27]))))"

text \<open>
  What a run does that can be seen from outside, in the order it happens: a line
  printed, a statement handed to \<^verbatim>\<open>cursor.execute\<close>, a model yielded by the
  generator.
\<close>

datatype event = Print string | Execute string | Yield model

text \<open>
  A block of statements returns the events it caused and the exception it raised, if
  any. A function with a return value returns \<open>Inl\<close> the exception or \<open>Inr\<close> the
  value.
\<close>

type_synonym outcome = "event list \<times> py_exception option"

subsection \<open>Text of numbers and tuples\<close>

definition digit_char :: "nat \<Rightarrow> char" where
  "digit_char d = char_of (48 + d)"

fun string_of_nat :: "nat \<Rightarrow> string" where
  "string_of_nat n =
     (if n < 10 then [digit_char n] else string_of_nat (n div 10) @ [digit_char (n mod 10)])"

declare string_of_nat.simps [simp del]

definition string_of_int :: "int \<Rightarrow> string" where
  "string_of_int i = (if i < 0 then CHR ''-'' # string_of_nat (nat (- i)) else string_of_nat (nat i))"

text \<open>A text between the single quotes that a format string of the source has around it.\<close>

definition quoted :: "string \<Rightarrow> string" where
  "quoted s = [CHR 0x27] @ s @ [CHR 0x27]"

text \<open>
  \<^verbatim>\<open>repr\<close> of a string of ASCII characters (a string is a list of bytes here):
  double quotes are used when the string has a single quote and no double quote,
  single quotes otherwise; the quote in use and the backslash are escaped with a
  backslash, tab, newline and carriage return are written \<^verbatim>\<open>\t\<close>,
  \<^verbatim>\<open>\n\<close>, \<^verbatim>\<open>\r\<close>, and any other byte outside the printable ASCII
  range is written \<^verbatim>\<open>\xhh\<close>. \<^verbatim>\<open>str\<close> of the model tuple applies
  \<^verbatim>\<open>repr\<close> to both components.
\<close>

definition hex_digit :: "nat \<Rightarrow> char" where
  "hex_digit d = ''0123456789abcdef'' ! d"

definition repr_char :: "char \<Rightarrow> char \<Rightarrow> string" where
  "repr_char q c =
     (if c = q \<or> c = CHR 0x5C then [CHR 0x5C, c]
      else if c = CHR 0x09 then [CHR 0x5C, CHR ''t'']
      else if c = CHR 0x0A then [CHR 0x5C, CHR ''n'']
      else if c = CHR 0x0D then [CHR 0x5C, CHR ''r'']
      else if (of_char c :: nat) < 32 \<or> 127 \<le> (of_char c :: nat) then
        [CHR 0x5C, CHR ''x'', hex_digit ((of_char c :: nat) div 16), hex_digit ((of_char c :: nat) mod 16)]
      else [c])"

definition py_repr :: "string \<Rightarrow> string" where
  "py_repr s =
     (let q = (if CHR 0x27 \<in> set s \<and> CHR 0x22 \<notin> set s then CHR 0x22 else CHR 0x27)
      in [q] @ concat (map (repr_char q) s) @ [q])"

definition str_model :: "model \<Rightarrow> string" where
  "str_model m = ''('' @ py_repr (fst m) @ '', '' @ py_repr (snd m) @ '')''"

section \<open>Schema declarations\<close>

text \<open>
  \<^verbatim>\<open>yaml.safe_load\<close> gives each constraint type a list; an entry of the list is a
  scalar (a field name) or a mapping (a reference descriptor with the keys
  \<^verbatim>\<open>from\<close>, \<^verbatim>\<open>to\<close>, \<^verbatim>\<open>field\<close>). Dictionaries are association lists in
  iteration order.
\<close>

datatype entry = Scalar string | Mapping "(string \<times> string) list"

fun str_items :: "(string \<times> string) list \<Rightarrow> string" where
  "str_items [] = []"
| "str_items [(k, v)] = py_repr k @ '': '' @ py_repr v"
| "str_items ((k, v) # kvs) = py_repr k @ '': '' @ py_repr v @ '', '' @ str_items kvs"

fun py_str :: "entry \<Rightarrow> string" where
  "py_str (Scalar s) = s"
| "py_str (Mapping kvs) = ''{'' @ str_items kvs @ ''}''"

text \<open>
  \<^verbatim>\<open>reference[key]\<close>: a string indexed by a string raises \<^verbatim>\<open>TypeError\<close>, a
  dictionary without the key raises \<^verbatim>\<open>KeyError\<close>.
\<close>

fun getitem :: "entry \<Rightarrow> string \<Rightarrow> py_exception + string" where
  "getitem (Scalar s) key = Inl (raise_new TypeError ''string indices must be integers, not str'')"
| "getitem (Mapping kvs) key =
     (case map_of kvs key of
        None \<Rightarrow> Inl (raise_new KeyError key)
      | Some v \<Rightarrow> Inr v)"

type_synonym constraints = "(string \<times> entry list) list"

text \<open>
  \<^verbatim>\<open>schemas\<close>: model group \<open>\<rightarrow>\<close> model name \<open>\<rightarrow>\<close> the value of
  \<^verbatim>\<open>schema_info['constraints']\<close>. Every \<^verbatim>\<open>schema_info\<close> has the key
  \<^verbatim>\<open>constraints\<close>, and the payload of a constraint type is a list.
\<close>

type_synonym schemas = "(string \<times> (string \<times> constraints) list) list"

section \<open>The project, the target and the warehouse\<close>

text \<open>
  What \<^verbatim>\<open>cursor.execute(sql)\<close> followed by \<^verbatim>\<open>cursor.fetchone()\<close> does for a
  statement: \<^verbatim>\<open>execute\<close> raises, or \<^verbatim>\<open>fetchone\<close> raises, or
  \<^verbatim>\<open>fetchone\<close> returns \<^verbatim>\<open>None\<close> or a row.
\<close>

datatype cursor_result =
    Execute_raises py_exception
  | Fetch_raises py_exception
  | Fetched "int list option"

text \<open>
  \<^verbatim>\<open>self.project\<close> with the collaborators behind it:
  \<^verbatim>\<open>run_environment()\<close> returns \<open>type\<close> and \<open>schema\<close>;
  \<^verbatim>\<open>RedshiftTarget(cfg).get_handle()\<close> and \<^verbatim>\<open>handle.cursor()\<close> raise
  \<open>handle_raises\<close> if that is not \<open>None\<close>; the warehouse answers every statement
  by \<open>cursor\<close>, the same way each time it is asked during a run. Leaving the
  \<^verbatim>\<open>with\<close> blocks neither raises nor swallows an exception. The source runs
  under Python 2 or Python 3; \<open>python2\<close> says which.
\<close>

record project =
  python2 :: bool
  target_type :: string
  target_schema :: string
  handle_raises :: "py_exception option"
  cursor :: "string \<Rightarrow> cursor_result"

section \<open>Query templates and \<^verbatim>\<open>make_query\<close>\<close>

definition QUERY_VALIDATE_NOT_NULL :: string where
  \<open>QUERY_VALIDATE_NOT_NULL =
     ''\<newline>with validation as (\<newline>  select "{field}" as f\<newline>  from "{schema}"."{table}"\<newline>)\<newline>select count(*) from validation where f is null\<newline>''\<close>

definition QUERY_VALIDATE_UNIQUE :: string where
  \<open>QUERY_VALIDATE_UNIQUE =
     ''\<newline>with validation as (\<newline>  select "{field}" as f\<newline>  from "{schema}"."{table}"\<newline>)\<newline>select count(*) from (\<newline>  select f from validation group by f having count(*) > 1\<newline>)\<newline>''\<close>

definition QUERY_VALIDATE_REFERENTIAL_INTEGRITY :: string where
  \<open>QUERY_VALIDATE_REFERENTIAL_INTEGRITY =
     ''\<newline>with parent as (\<newline>  select "{parent_field}" as id\<newline>  from "{schema}"."{parent_table}"\<newline>), child as (\<newline>  select "{child_field}" as id\<newline>  from "{schema}"."{child_table}"\<newline>)\<newline>select count(*) from child\<newline>where id not in (select id from parent) and id is not null\<newline>''\<close>

text \<open>
  \<^verbatim>\<open>query.format(**params)\<close> for templates whose replacement fields are plain
  names: text outside braces is copied, \<^verbatim>\<open>{name}\<close> is replaced by the value of
  \<open>name\<close> (not scanned again), a name that \<open>params\<close> lacks raises
  \<^verbatim>\<open>KeyError\<close>. The second argument of \<open>format_from\<close> is the name being read,
  reversed, when the scan is inside braces.
\<close>

type_synonym params = "(string \<times> string) list"

fun format_from :: "params \<Rightarrow> string option \<Rightarrow> string \<Rightarrow> py_exception + string" where
  "format_from ps None [] = Inr []"
| "format_from ps (Some h) [] =
     Inl (raise_new (Exception_subclass ''ValueError'') ''unmatched { in format'')"
| "format_from ps None (c # cs) =
     (if c = CHR ''{'' then format_from ps (Some []) cs
      else (case format_from ps None cs of Inl e \<Rightarrow> Inl e | Inr s \<Rightarrow> Inr (c # s)))"
| "format_from ps (Some h) (c # cs) =
     (if c = CHR ''}'' then
        (case map_of ps (rev h) of
           None \<Rightarrow> Inl (raise_new KeyError (rev h))
         | Some v \<Rightarrow> (case format_from ps None cs of Inl e \<Rightarrow> Inl e | Inr s \<Rightarrow> Inr (v @ s)))
      else format_from ps (Some (c # h)) cs)"

definition make_query :: "string \<Rightarrow> params \<Rightarrow> py_exception + string" where
  "make_query query ps = format_from ps None query"

definition get_query_params :: "project \<Rightarrow> string \<Rightarrow> string \<Rightarrow> params" where
  "get_query_params p table field =
     [(''schema'', target_schema p), (''table'', table), (''field'', field)]"

section \<open>Statements in sequence and \<^verbatim>\<open>for\<close> loops\<close>

text \<open>
  \<^verbatim>\<open>for x in xs: body\<close>, where an exception raised by the body leaves the loop
  with the rest of \<open>xs\<close> untouched.
\<close>

fun for_each :: "('a \<Rightarrow> outcome) \<Rightarrow> 'a list \<Rightarrow> outcome" where
  "for_each body [] = ([], None)"
| "for_each body (x # xs) =
     (case body x of
        (evs, Some e) \<Rightarrow> (evs, Some e)
      | (evs, None) \<Rightarrow> (case for_each body xs of (evs', r) \<Rightarrow> (evs @ evs', r)))"

section \<open>\<^verbatim>\<open>get_target\<close> and \<^verbatim>\<open>execute_query\<close>\<close>

text \<open>The exceptions that the source creates, with their messages.\<close>

definition unknown_target_type :: "string \<Rightarrow> py_exception" where
  "unknown_target_type t = raise_new NotImplementedError (''Unknown target type '' @ quoted t)"

definition len_of_None :: py_exception where
  "len_of_None = raise_new TypeError (''object of type '' @ quoted ''NoneType'' @ '' has no len()'')"

definition unexpected_result :: "nat \<Rightarrow> py_exception" where
  "unexpected_result k =
     raise_new RuntimeError
       (''Unexpected validation result. Expected 1 record, got '' @ string_of_nat k)"

definition invalid_constraint :: "string \<Rightarrow> model \<Rightarrow> py_exception" where
  "invalid_constraint constraint_type model =
     raise_new RuntimeError
       (''Invalid constraint '' @ quoted constraint_type @ '' specified for ''
        @ quoted (str_model model) @ '' in schema.yml'')"

definition get_target :: "project \<Rightarrow> py_exception + unit" where
  "get_target p =
     (if target_type p = ''redshift'' then Inr ()
      else Inl (unknown_target_type (target_type p)))"

definition execute_query :: "project \<Rightarrow> model \<Rightarrow> string \<Rightarrow> event list \<times> (py_exception + int)" where
  "execute_query p model sql =
     (case get_target p of
        Inl e \<Rightarrow> ([], Inl e)
      | Inr target \<Rightarrow>
          (case handle_raises p of
             Some e \<Rightarrow> ([], Inl e)
           | None \<Rightarrow>
               (case cursor p sql of
                  Execute_raises e \<Rightarrow>
                    ([Execute sql],
                     Inl (if isinstance_Exception (cls e) then e\<lparr>model_attr := Some model\<rparr> else e))
                | Fetch_raises e \<Rightarrow> ([Execute sql], Inl e)
                | Fetched None \<Rightarrow> ([Execute sql], Inl len_of_None)
                | Fetched (Some result) \<Rightarrow>
                    (if length result \<noteq> 1 then
                       ([Execute sql, Print (''SQL: '' @ sql), Print ''RESULT:''],
                        Inl (unexpected_result (length result)))
                     else ([Execute sql], Inr (result ! 0))))))"

section \<open>The three handlers\<close>

text \<open>
  The last lines of every handler's loop body are the same: print the heading, run the
  statement, print \<^verbatim>\<open>OK\<close> or \<^verbatim>\<open>FAILED (n)\<close>. An exception of
  \<^verbatim>\<open>execute_query\<close> is not caught here.
\<close>

definition report :: "int \<Rightarrow> event" where
  "report num_rows =
     (if num_rows = 0 then Print ''  OK''
      else Print (''  FAILED ('' @ string_of_int num_rows @ '')''))"

definition execute_and_report :: "project \<Rightarrow> model \<Rightarrow> string \<Rightarrow> string \<Rightarrow> outcome" where
  "execute_and_report p model heading sql =
     (case execute_query p model sql of
        (evs, Inl e) \<Rightarrow> (Print heading # evs, Some e)
      | (evs, Inr num_rows) \<Rightarrow> (Print heading # evs @ [report num_rows], None))"

definition dq :: "string \<Rightarrow> string" where
  "dq s = [CHR 0x22] @ s @ [CHR 0x22]"

definition not_null_entry :: "project \<Rightarrow> model \<Rightarrow> string \<Rightarrow> entry \<Rightarrow> outcome" where
  "not_null_entry p model table field =
     (let params = get_query_params p table (py_str field) in
      case make_query QUERY_VALIDATE_NOT_NULL params of
        Inl e \<Rightarrow> ([], Some e)
      | Inr sql \<Rightarrow>
          execute_and_report p model
            (''VALIDATE NOT NULL '' @ dq table @ ''.'' @ dq (py_str field)) sql)"

definition validate_not_null :: "project \<Rightarrow> model \<Rightarrow> entry list \<Rightarrow> outcome" where
  "validate_not_null p model constraint_data =
     (let table = snd model in for_each (not_null_entry p model table) constraint_data)"

definition unique_entry :: "project \<Rightarrow> model \<Rightarrow> string \<Rightarrow> entry \<Rightarrow> outcome" where
  "unique_entry p model table field =
     (let params = get_query_params p table (py_str field) in
      case make_query QUERY_VALIDATE_UNIQUE params of
        Inl e \<Rightarrow> ([], Some e)
      | Inr sql \<Rightarrow>
          execute_and_report p model
            (''VALIDATE UNIQUE '' @ dq table @ ''.'' @ dq (py_str field)) sql)"

definition validate_unique :: "project \<Rightarrow> model \<Rightarrow> entry list \<Rightarrow> outcome" where
  "validate_unique p model constraint_data =
     (let table = snd model in for_each (unique_entry p model table) constraint_data)"

text \<open>
  \<^verbatim>\<open>validate_relationships\<close> builds the parameter dictionary itself, its values
  evaluated in the order written: the model's own table is \<open>parent_table\<close>, the
  reference's \<open>from\<close> is \<open>parent_field\<close>, its \<open>to\<close> is \<open>child_table\<close>, its
  \<open>field\<close> is \<open>child_field\<close>.
\<close>

definition relationships_entry :: "project \<Rightarrow> model \<Rightarrow> string \<Rightarrow> entry \<Rightarrow> outcome" where
  "relationships_entry p model table reference =
     (case getitem reference ''from'' of
        Inl e \<Rightarrow> ([], Some e)
      | Inr ref_from \<Rightarrow>
          (case getitem reference ''to'' of
             Inl e \<Rightarrow> ([], Some e)
           | Inr ref_to \<Rightarrow>
               (case getitem reference ''field'' of
                  Inl e \<Rightarrow> ([], Some e)
                | Inr ref_field \<Rightarrow>
                    (let params = [(''schema'', target_schema p),
                                   (''parent_table'', table),
                                   (''parent_field'', ref_from),
                                   (''child_table'', ref_to),
                                   (''child_field'', ref_field)]
                     in case make_query QUERY_VALIDATE_REFERENTIAL_INTEGRITY params of
                          Inl e \<Rightarrow> ([], Some e)
                        | Inr sql \<Rightarrow>
                            execute_and_report p model
                              (''VALIDATE REFERENTIAL INTEGRITY '' @ dq table @ ''.'' @ dq ref_from
                               @ '' to '' @ dq ref_to @ ''.'' @ dq ref_field)
                              sql))))"

definition validate_relationships :: "project \<Rightarrow> model \<Rightarrow> entry list \<Rightarrow> outcome" where
  "validate_relationships p model constraint_data =
     (let table = snd model in for_each (relationships_entry p model table) constraint_data)"

section \<open>The dispatcher and the orchestrator\<close>

definition constraint_map :: "(string \<times> (project \<Rightarrow> model \<Rightarrow> entry list \<Rightarrow> outcome)) list" where
  "constraint_map =
     [(''not_null'', validate_not_null),
      (''unique'', validate_unique),
      (''relationships'', validate_relationships)]"

definition validate_schema_constraint :: "project \<Rightarrow> model \<Rightarrow> string \<Rightarrow> entry list \<Rightarrow> outcome" where
  "validate_schema_constraint p model constraint_type constraint_data =
     (case map_of constraint_map constraint_type of
        Some validator \<Rightarrow> validator p model constraint_data
      | None \<Rightarrow> ([], Some (invalid_constraint constraint_type model)))"

text \<open>
  The body of the innermost loop of \<^verbatim>\<open>validate_schema\<close>: the
  \<^verbatim>\<open>try\<close> around the dispatcher and the \<^verbatim>\<open>yield\<close>, with
  \<^verbatim>\<open>except RuntimeError\<close>. An exception of another class leaves the generator,
  and so does the \<^verbatim>\<open>AttributeError\<close> of reading \<^verbatim>\<open>e.message\<close> in the
  handler, before anything is printed.
\<close>

definition try_constraint :: "project \<Rightarrow> model \<Rightarrow> string \<times> entry list \<Rightarrow> outcome" where
  "try_constraint p model c =
     (case validate_schema_constraint p model (fst c) (snd c) of
        (evs, None) \<Rightarrow> (evs @ [Yield model], None)
      | (evs, Some e) \<Rightarrow>
          (if isinstance_RuntimeError (cls e) then
             (case read_message (python2 p) e of
                Inl attribute_error \<Rightarrow> (evs, Some attribute_error)
              | Inr message \<Rightarrow> (evs @ [Print (''ERRROR: '' @ message)], None))
           else (evs, Some e)))"

text \<open>
  \<open>compiler g n\<close> is \<^verbatim>\<open>compiler.get_model_config(g, n)['enabled']\<close>. The result
  is the run of the generator to its end, as \<^verbatim>\<open>test\<close> consumes it.
\<close>

definition validate_model :: "project \<Rightarrow> (string \<Rightarrow> string \<Rightarrow> bool) \<Rightarrow> string \<Rightarrow> string \<times> constraints \<Rightarrow> outcome" where
  "validate_model p compiler model_group m =
     (let model = (model_group, fst m) in
      if \<not> compiler model_group (fst m) then ([], None)
      else for_each (try_constraint p model) (snd m))"

definition validate_schema :: "project \<Rightarrow> schemas \<Rightarrow> (string \<Rightarrow> string \<Rightarrow> bool) \<Rightarrow> outcome" where
  "validate_schema p schemas compiler =
     for_each (\<lambda>g. for_each (validate_model p compiler (fst g)) (snd g)) schemas"

section \<open>What the three statements compute\<close>

text \<open>
  The tables of the warehouse when a statement runs: for a schema, a table and a field,
  the values of that field row by row, \<open>None\<close> for SQL's \<^verbatim>\<open>NULL\<close>.
\<close>

type_synonym 'v tables = "string \<Rightarrow> string \<Rightarrow> string \<Rightarrow> 'v option list"

text \<open>
  SQL's three truth values. A comparison with \<^verbatim>\<open>NULL\<close> is unknown;
  \<^verbatim>\<open>where\<close> and \<^verbatim>\<open>having\<close> keep a row only when the condition is true.
\<close>

datatype truth = Yes | No | Unknown

fun sql_not :: "truth \<Rightarrow> truth" where
  "sql_not Yes = No"
| "sql_not No = Yes"
| "sql_not Unknown = Unknown"

fun sql_and :: "truth \<Rightarrow> truth \<Rightarrow> truth" where
  "sql_and No _ = No"
| "sql_and _ No = No"
| "sql_and Yes Yes = Yes"
| "sql_and _ _ = Unknown"

fun sql_or :: "truth \<Rightarrow> truth \<Rightarrow> truth" where
  "sql_or Yes _ = Yes"
| "sql_or _ Yes = Yes"
| "sql_or No No = No"
| "sql_or _ _ = Unknown"

fun sql_eq :: "'v option \<Rightarrow> 'v option \<Rightarrow> truth" where
  "sql_eq (Some x) (Some y) = (if x = y then Yes else No)"
| "sql_eq _ _ = Unknown"

fun sql_is_null :: "'v option \<Rightarrow> truth" where
  "sql_is_null None = Yes"
| "sql_is_null (Some _) = No"

text \<open>\<^verbatim>\<open>x in (select ...)\<close>: the disjunction of the comparisons of \<open>x\<close> with every row.\<close>

fun sql_in :: "'v option \<Rightarrow> 'v option list \<Rightarrow> truth" where
  "sql_in x [] = No"
| "sql_in x (y # ys) = sql_or (sql_eq x y) (sql_in x ys)"

definition sql_where :: "('r \<Rightarrow> truth) \<Rightarrow> 'r list \<Rightarrow> 'r list" where
  "sql_where cond rows = filter (\<lambda>r. cond r = Yes) rows"

text \<open>
  \<^verbatim>\<open>select f from validation group by f having count(*) > 1\<close>: one row for each
  group of equal values (\<^verbatim>\<open>group by\<close> puts the \<^verbatim>\<open>NULL\<close>s in one group)
  that has more than one row.
\<close>

definition sql_group_having_count_gt_1 :: "'v option list \<Rightarrow> 'v option list" where
  "sql_group_having_count_gt_1 rows = filter (\<lambda>g. count_list rows g > 1) (remdups rows)"

text \<open>
  The value of each template once \<open>params\<close> is filled in, read off the template line
  by line; \<open>None\<close> when \<open>params\<close> lacks a name of the template.
\<close>

definition eval_QUERY_VALIDATE_NOT_NULL :: "'v tables \<Rightarrow> params \<Rightarrow> nat option" where
  "eval_QUERY_VALIDATE_NOT_NULL db ps =
     (case (map_of ps ''field'', map_of ps ''schema'', map_of ps ''table'') of
        (Some field, Some schema, Some table) \<Rightarrow>
          (let validation = db schema table field
           in Some (length (sql_where (\<lambda>f. sql_is_null f) validation)))
      | _ \<Rightarrow> None)"

definition eval_QUERY_VALIDATE_UNIQUE :: "'v tables \<Rightarrow> params \<Rightarrow> nat option" where
  "eval_QUERY_VALIDATE_UNIQUE db ps =
     (case (map_of ps ''field'', map_of ps ''schema'', map_of ps ''table'') of
        (Some field, Some schema, Some table) \<Rightarrow>
          (let validation = db schema table field
           in Some (length (sql_group_having_count_gt_1 validation)))
      | _ \<Rightarrow> None)"

definition eval_QUERY_VALIDATE_REFERENTIAL_INTEGRITY :: "'v tables \<Rightarrow> params \<Rightarrow> nat option" where
  "eval_QUERY_VALIDATE_REFERENTIAL_INTEGRITY db ps =
     (case (map_of ps ''parent_field'', map_of ps ''schema'', map_of ps ''parent_table'',
            map_of ps ''child_field'', map_of ps ''child_table'') of
        (Some parent_field, Some schema, Some parent_table, Some child_field, Some child_table) \<Rightarrow>
          (let parent = db schema parent_table parent_field;
               child = db schema child_table child_field
           in Some (length (sql_where
                      (\<lambda>id. sql_and (sql_not (sql_in id parent)) (sql_not (sql_is_null id)))
                      child)))
      | _ \<Rightarrow> None)"

section \<open>Observations and examples\<close>

text \<open>The statements executed, the lines printed and the models yielded, in order.\<close>

fun executed :: "event list \<Rightarrow> string list" where
  "executed [] = []"
| "executed (Execute sql # evs) = sql # executed evs"
| "executed (_ # evs) = executed evs"

fun printed :: "event list \<Rightarrow> string list" where
  "printed [] = []"
| "printed (Print line # evs) = line # printed evs"
| "printed (_ # evs) = printed evs"

fun yielded :: "event list \<Rightarrow> model list" where
  "yielded [] = []"
| "yielded (Yield m # evs) = m # yielded evs"
| "yielded (_ # evs) = yielded evs"

text \<open>
  A Redshift project on schema \<open>analytics\<close> whose connection opens, run under
  Python 3.
\<close>

definition redshift_project :: "(string \<Rightarrow> cursor_result) \<Rightarrow> project" where
  "redshift_project c =
     \<lparr>python2 = False, target_type = ''redshift'', target_schema = ''analytics'',
      handle_raises = None, cursor = c\<rparr>"


text \<open>
  \<open>parent.k\<close> holds 1, 2, 3 and \<open>child.k\<close> holds 1, 2, 4 and a \<^verbatim>\<open>NULL\<close>;
  \<open>parent_with_null.k\<close> holds 1 and a \<^verbatim>\<open>NULL\<close>, \<open>orphan.k\<close> holds 4.
\<close>

definition parent_child :: "int tables" where
  "parent_child schema table field =
     (if table = ''parent'' then [Some 1, Some 2, Some 3]
      else if table = ''child'' then [Some 1, Some 2, Some 4, None]
      else if table = ''parent_with_null'' then [Some 1, None]
      else if table = ''orphan'' then [Some 4]
      else [])"

text \<open>
  Two errors of a database driver: one outside \<^verbatim>\<open>RuntimeError\<close>, and one inside
  it whose class sets the attribute \<^verbatim>\<open>message\<close>.
\<close>

definition driver_error :: py_exception where
  "driver_error =
     \<lparr>cls = Exception_subclass ''ProgrammingError'', arg = ''relation does not exist'',
      own_message = None, model_attr = None\<rparr>"

definition runtime_driver_error :: py_exception where
  "runtime_driver_error =
     \<lparr>cls = RuntimeError_subclass ''DriverError'', arg = ''statement cancelled'',
      own_message = Some ''statement cancelled'', model_attr = None\<rparr>"

text \<open>Declarations for two models of one group, and a compiler that enables every model.\<close>

definition shop_schemas :: schemas where
  "shop_schemas =
     [(''shop'',
       [(''orders'', [(''not_null'', [Scalar ''id'', Scalar ''customer_id'']), (''unique'', [Scalar ''id''])]),
        (''customers'', [(''unique'', [Scalar ''id''])])])]"

definition all_enabled :: "string \<Rightarrow> string \<Rightarrow> bool" where
  "all_enabled model_group model_name = True"

text \<open>The declarations with the models removed that the compiler does not enable.\<close>

definition enabled_only :: "(string \<Rightarrow> string \<Rightarrow> bool) \<Rightarrow> schemas \<Rightarrow> schemas" where
  "enabled_only compiler schemas =
     map (\<lambda>g. (fst g, filter (\<lambda>m. compiler (fst g) (fst m)) (snd g))) schemas"

text \<open>A compiler that disables the model \<open>orders\<close>; a project with another target type.\<close>

definition orders_disabled :: "string \<Rightarrow> string \<Rightarrow> bool" where
  "orders_disabled model_group model_name = (model_name \<noteq> ''orders'')"

definition postgres_project :: project where
  "postgres_project =
     \<lparr>python2 = False, target_type = ''postgres'', target_schema = ''analytics'',
      handle_raises = None, cursor = (\<lambda>sql. Fetched (Some [0]))\<rparr>"

text \<open>
  Two references declared on the model \<open>orders\<close>, and a warehouse that cancels the
  not-null statement and the uniqueness statement for \<open>orders.id\<close> and the statement
  of the first reference, and answers every other statement with the count 0.
\<close>

definition to_line_items :: entry where
  "to_line_items = Mapping [(''from'', ''id''), (''to'', ''line_items''), (''field'', ''order_id'')]"

definition to_shipments :: entry where
  "to_shipments = Mapping [(''from'', ''id''), (''to'', ''shipments''), (''field'', ''order_id'')]"

definition cancelled_statements :: "(py_exception + string) list" where
  "cancelled_statements =
     [make_query QUERY_VALIDATE_NOT_NULL
        [(''schema'', ''analytics''), (''table'', ''orders''), (''field'', ''id'')],
      make_query QUERY_VALIDATE_UNIQUE
        [(''schema'', ''analytics''), (''table'', ''orders''), (''field'', ''id'')],
      make_query QUERY_VALIDATE_REFERENTIAL_INTEGRITY
        [(''schema'', ''analytics''), (''parent_table'', ''orders''), (''parent_field'', ''id''),
         (''child_table'', ''line_items''), (''child_field'', ''order_id'')]]"

definition cancelling_cursor :: "string \<Rightarrow> cursor_result" where
  "cancelling_cursor sql =
     (if Inr sql \<in> set cancelled_statements then Execute_raises runtime_driver_error
      else Fetched (Some [0]))"

text \<open>
  The reference \<open>{from: customer_id, to: customers, field: id}\<close>, declared on the model
  \<open>orders\<close> in the examples, and \<open>{from: id, to: orders, field: customer_id}\<close>,
  declared on the model \<open>customers\<close>.
\<close>

definition to_customers :: entry where
  "to_customers = Mapping [(''from'', ''customer_id''), (''to'', ''customers''), (''field'', ''id'')]"


text \<open>The declarations with every constraint of type \<open>ct\<close> removed.\<close>

definition without_constraint_type :: "string \<Rightarrow> schemas \<Rightarrow> schemas" where
  "without_constraint_type ct schemas =
     map (\<lambda>g. (fst g, map (\<lambda>m. (fst m, filter (\<lambda>c. fst c \<noteq> ct) (snd m))) (snd g))) schemas"

text \<open>Declarations in which the first constraint type of \<open>orders\<close> is not a known one.\<close>

definition shop_schemas_with_typo :: schemas where
  "shop_schemas_with_typo =
     [(''shop'',
       [(''orders'', [(''not_a_real_constraint'', [Scalar ''id'']), (''unique'', [Scalar ''id''])]),
        (''customers'', [(''unique'', [Scalar ''id''])])])]"

text \<open>
  A constraint type of a model is successfully dispatched when
  \<^verbatim>\<open>validate_schema_constraint\<close> returns for it without an exception.
\<close>

definition dispatched_ok :: "project \<Rightarrow> model \<Rightarrow> string \<times> entry list \<Rightarrow> bool" where
  "dispatched_ok p model c = (snd (validate_schema_constraint p model (fst c) (snd c)) = None)"

text \<open>The declared models with their constraints, in the order the run visits them.\<close>

definition declared :: "schemas \<Rightarrow> (model \<times> constraints) list" where
  "declared schemas = concat (map (\<lambda>g. map (\<lambda>m. ((fst g, fst m), snd m)) (snd g)) schemas)"

text \<open>
  One identifier for each successfully dispatched constraint type of each enabled model,
  in declaration order.
\<close>

definition expected_yields :: "project \<Rightarrow> (string \<Rightarrow> string \<Rightarrow> bool) \<Rightarrow> schemas \<Rightarrow> model list" where
  "expected_yields p compiler schemas =
     concat (map (\<lambda>d. if compiler (fst (fst d)) (snd (fst d))
                       then map (\<lambda>c. fst d) (filter (dispatched_ok p (fst d)) (snd d))
                       else [])
                 (declared schemas))"

text \<open>What \<^verbatim>\<open>validate_schema\<close> does for one declared model.\<close>

definition model_body :: "project \<Rightarrow> (string \<Rightarrow> string \<Rightarrow> bool) \<Rightarrow> model \<times> constraints \<Rightarrow> outcome" where
  "model_body p compiler d =
     (if \<not> compiler (fst (fst d)) (snd (fst d)) then ([], None)
      else for_each (try_constraint p (fst d)) (snd d))"

text \<open>Declarations of two models with one constraint type each.\<close>

definition one_constraint_each :: schemas where
  "one_constraint_each =
     [(''shop'',
       [(''orders'', [(''not_null'', [Scalar ''id''])]),
        (''customers'', [(''unique'', [Scalar ''id''])])])]"

section \<open>Properties of the statements\<close>

lemma sql_in_cases:
  "sql_in x ys =
     (case x of
        None \<Rightarrow> (if ys = [] then No else Unknown)
      | Some v \<Rightarrow> if Some v \<in> set ys then Yes else if None \<in> set ys then Unknown else No)"
proof (induction ys)
  case Nil
  show ?case by (cases x) simp_all
next
  case (Cons y ys)
  show ?case
  proof (cases x)
    case None
    then show ?thesis using Cons by (cases y; cases "ys = []") simp_all
  next
    case (Some v)
    then show ?thesis using Cons by (cases y) (auto split: if_splits)
  qed
qed

lemma orphan_condition:
  "(sql_and (sql_not (sql_in x parent)) (sql_not (sql_is_null x)) = Yes)
     \<longleftrightarrow> (x \<noteq> None \<and> x \<notin> set parent \<and> None \<notin> set parent)"
  by (cases x) (auto simp: sql_in_cases)

lemma orphan_count:
  "length (sql_where (\<lambda>id. sql_and (sql_not (sql_in id parent)) (sql_not (sql_is_null id))) child)
   = (if None \<in> set parent then 0
      else length (filter (\<lambda>v. v \<noteq> None \<and> v \<notin> set parent) child))"
  by (simp add: sql_where_def orphan_condition)

lemma duplicate_group_count:
  "length (sql_group_having_count_gt_1 rows) = card {v. 1 < count_list rows v}"
proof -
  let ?gs = "filter (\<lambda>g. count_list rows g > 1) (remdups rows)"
  have "v \<in> set rows" if "1 < count_list rows v" for v
    using that count_list_0_iff [of rows v] by auto
  then have "{v. 1 < count_list rows v} = set ?gs" by auto
  moreover have "distinct ?gs" by simp
  then have "card (set ?gs) = length ?gs" by (rule distinct_card)
  ultimately show ?thesis unfolding sql_group_having_count_gt_1_def by simp
qed

lemma make_query_referential_integrity:
  \<open>make_query QUERY_VALIDATE_REFERENTIAL_INTEGRITY
     [(''schema'', schema), (''parent_table'', parent_table), (''parent_field'', parent_field),
      (''child_table'', child_table), (''child_field'', child_field)] =
   Inr (''\<newline>with parent as (\<newline>  select "'' @ parent_field @ ''" as id\<newline>  from "''
        @ schema @ ''"."'' @ parent_table @ ''"\<newline>), child as (\<newline>  select "''
        @ child_field @ ''" as id\<newline>  from "'' @ schema @ ''"."'' @ child_table
        @ ''"\<newline>)\<newline>select count(*) from child\<newline>where id not in (select id from parent) and id is not null\<newline>'')\<close>
  by (simp add: make_query_def QUERY_VALIDATE_REFERENTIAL_INTEGRITY_def)

lemma referential_integrity_count:
  "eval_QUERY_VALIDATE_REFERENTIAL_INTEGRITY db
     [(''schema'', schema), (''parent_table'', parent_table), (''parent_field'', parent_field),
      (''child_table'', child_table), (''child_field'', child_field)] =
     Some (if None \<in> set (db schema parent_table parent_field) then 0
           else length (filter (\<lambda>v. v \<noteq> None \<and> v \<notin> set (db schema parent_table parent_field))
                          (db schema child_table child_field)))"
  by (simp add: eval_QUERY_VALIDATE_REFERENTIAL_INTEGRITY_def orphan_count)

text \<open>
  C7. The statement of the uniqueness check for \<open>{schema, table, field}\<close> returns the
  number of distinct values of the field (the \<^verbatim>\<open>NULL\<close> group among them) that
  occur more than once, not the number of rows that have a duplicate: on the values
  1, 1, 2, 3 it returns 1, where two rows carry a duplicated value.
\<close>

theorem unique_statement_counts_duplicate_groups:
  "eval_QUERY_VALIDATE_UNIQUE db (get_query_params p table field) =
     Some (card {v. 1 < count_list (db (target_schema p) table field) v})
   \<and> eval_QUERY_VALIDATE_UNIQUE (\<lambda>schema table field. [Some 1, Some 1, Some 2, Some (3::int)])
       (get_query_params p table field) = Some 1
   \<and> length (filter (\<lambda>v. 1 < count_list [Some 1, Some 1, Some 2, Some (3::int)] v)
               [Some 1, Some 1, Some 2, Some 3]) = 2"
proof -
  have eval: "eval_QUERY_VALIDATE_UNIQUE db (get_query_params p table field) =
          Some (length (sql_group_having_count_gt_1 (db (target_schema p) table field)))" for db :: "'b tables"
    by (simp add: eval_QUERY_VALIDATE_UNIQUE_def get_query_params_def)
  have general: "eval_QUERY_VALIDATE_UNIQUE db (get_query_params p table field) =
     Some (card {v. 1 < count_list (db (target_schema p) table field) v})"
    unfolding eval duplicate_group_count ..
  have example: "eval_QUERY_VALIDATE_UNIQUE (\<lambda>schema table field. [Some 1, Some 1, Some 2, Some (3::int)])
       (get_query_params p table field) = Some 1"
    unfolding eval by (simp add: sql_group_having_count_gt_1_def)
  have rows: "length (filter (\<lambda>v. 1 < count_list [Some 1, Some 1, Some 2, Some (3::int)] v)
               [Some 1, Some 1, Some 2, Some 3]) = 2"
    by simp
  from general example rows show ?thesis by blast
qed

theorem unique_statement_counts_duplicate_groups_witness:
  "eval_QUERY_VALIDATE_UNIQUE parent_child
     (get_query_params (redshift_project (\<lambda>sql. Fetched None)) ''child'' ''k'') = Some 0"
  using unique_statement_counts_duplicate_groups
    [of parent_child "redshift_project (\<lambda>sql. Fetched None)" "''child''" "''k''"]
  by (simp add: eval_QUERY_VALIDATE_UNIQUE_def get_query_params_def redshift_project_def
      parent_child_def sql_group_having_count_gt_1_def)

text \<open>
  C8. The statement of the referential-integrity check is to count the rows of
  \<open>child_table\<close> whose \<open>child_field\<close> is not \<^verbatim>\<open>NULL\<close> and is absent from the
  \<open>parent_field\<close> values of \<open>parent_table\<close>; parent keys 1, 2, 3 against child
  values 1, 2, 4, \<^verbatim>\<open>NULL\<close> give 1. The statement misses the case of a
  \<^verbatim>\<open>NULL\<close> among the parent keys: with parent keys 1 and \<^verbatim>\<open>NULL\<close> the
  child value 4 is not \<^verbatim>\<open>NULL\<close> and absent from the parent's values, one row
  is to be counted, yet \<^verbatim>\<open>not in\<close> is not true of it and the statement counts 0.
\<close>

theorem referential_integrity_null_parent_key:
  "eval_QUERY_VALIDATE_REFERENTIAL_INTEGRITY parent_child
     [(''schema'', ''analytics''), (''parent_table'', ''parent_with_null''), (''parent_field'', ''k''),
      (''child_table'', ''orphan''), (''child_field'', ''k'')] = Some 0
   \<and> length (filter (\<lambda>v. v \<noteq> None \<and> v \<notin> set (parent_child ''analytics'' ''parent_with_null'' ''k''))
               (parent_child ''analytics'' ''orphan'' ''k'')) = 1
   \<and> eval_QUERY_VALIDATE_REFERENTIAL_INTEGRITY parent_child
       [(''schema'', ''analytics''), (''parent_table'', ''parent''), (''parent_field'', ''k''),
        (''child_table'', ''child''), (''child_field'', ''k'')] = Some 1"
  by (simp add: referential_integrity_count parent_child_def)

section \<open>Properties of loops, handlers and runs\<close>

lemma for_each_append:
  "for_each body (xs @ ys) =
     (case for_each body xs of
        (evs, Some e) \<Rightarrow> (evs, Some e)
      | (evs, None) \<Rightarrow> (case for_each body ys of (evs', r) \<Rightarrow> (evs @ evs', r)))"
  by (induction xs) (auto split: prod.splits option.splits)

lemma for_each_Cons_if:
  "for_each body (x # xs) =
     (if snd (body x) = None
      then (fst (body x) @ fst (for_each body xs), snd (for_each body xs))
      else body x)"
  by (cases "body x") (auto split: prod.splits option.splits)


lemma for_each_completes_iff:
  "snd (for_each body xs) = None \<longleftrightarrow> (\<forall>x\<in>set xs. snd (body x) = None)"
  by (induction xs) (auto split: prod.splits option.splits)

lemma for_each_completes_events:
  "snd (for_each body xs) = None \<Longrightarrow> fst (for_each body xs) = concat (map (\<lambda>x. fst (body x)) xs)"
  by (induction xs) (auto split: prod.splits option.splits)


lemma for_each_event:
  "ev \<in> set (fst (for_each body xs)) \<Longrightarrow> \<exists>x\<in>set xs. ev \<in> set (fst (body x))"
  by (induction xs) (auto split: prod.splits option.splits)

lemma for_each_filter:
  "(\<And>x. \<not> P x \<Longrightarrow> body x = ([], None)) \<Longrightarrow> for_each body (filter P xs) = for_each body xs"
  by (induction xs) (auto split: prod.splits option.splits)

lemma for_each_cong:
  "(\<And>x. x \<in> set xs \<Longrightarrow> b1 x = b2 x) \<Longrightarrow> for_each b1 xs = for_each b2 xs"
  by (induction xs) (auto split: prod.splits option.splits)

lemma for_each_map: "for_each body (map f xs) = for_each (\<lambda>x. body (f x)) xs"
  by (induction xs) (auto split: prod.splits option.splits)

lemma executed_append [simp]: "executed (a @ b) = executed a @ executed b"
  by (induction a rule: executed.induct) simp_all

lemma printed_append [simp]: "printed (a @ b) = printed a @ printed b"
  by (induction a rule: printed.induct) simp_all

lemma yielded_append [simp]: "yielded (a @ b) = yielded a @ yielded b"
  by (induction a rule: yielded.induct) simp_all

lemma validate_schema_head:
  assumes "compiler g n"
  shows "validate_schema p ((g, (n, x # cs) # ms) # gs) compiler =
     (case try_constraint p (g, n) x of
        (evs, Some e) \<Rightarrow> (evs, Some e)
      | (evs, None) \<Rightarrow>
          (evs @ fst (validate_schema p ((g, (n, cs) # ms) # gs) compiler),
           snd (validate_schema p ((g, (n, cs) # ms) # gs) compiler)))"
  using assms
  by (simp add: validate_schema_def validate_model_def split: prod.splits option.splits)


lemma yielded_mem: "m \<in> set (yielded evs) \<longleftrightarrow> Yield m \<in> set evs"
  by (induction evs rule: yielded.induct) auto

lemma executed_mem: "sql \<in> set (executed evs) \<longleftrightarrow> Execute sql \<in> set evs"
  by (induction evs rule: executed.induct) auto

lemma for_each_yielded_nil:
  assumes "\<And>x. yielded (fst (body x)) = []"
  shows "yielded (fst (for_each body xs)) = []"
proof (induction xs)
  case Nil
  show ?case by simp
next
  case (Cons x xs)
  obtain evs r where bx: "body x = (evs, r)" by (cases "body x")
  with assms [of x] have "yielded evs = []" by simp
  with Cons bx show ?case by (cases r) (auto split: prod.splits)
qed

lemma for_each_executed_nil:
  assumes "\<And>x. executed (fst (body x)) = []"
  shows "executed (fst (for_each body xs)) = []"
proof (induction xs)
  case Nil
  show ?case by simp
next
  case (Cons x xs)
  obtain evs r where bx: "body x = (evs, r)" by (cases "body x")
  with assms [of x] have "executed evs = []" by simp
  with Cons bx show ?case by (cases r) (auto split: prod.splits)
qed

lemma execute_query_unsupported:
  "target_type p \<noteq> ''redshift'' \<Longrightarrow>
   execute_query p model sql =
     ([], Inl (unknown_target_type (target_type p)))"
  by (simp add: execute_query_def get_target_def)

lemma execute_query_yielded: "yielded (fst (execute_query p model sql)) = []"
  by (simp add: execute_query_def split: sum.splits option.splits cursor_result.splits)

lemma execute_and_report_yielded: "yielded (fst (execute_and_report p model heading sql)) = []"
  using execute_query_yielded [of p model sql]
  by (auto simp: execute_and_report_def report_def split: prod.splits sum.splits)

lemma execute_and_report_unsupported:
  "target_type p \<noteq> ''redshift'' \<Longrightarrow>
   execute_and_report p model heading sql =
     ([Print heading],
      Some (unknown_target_type (target_type p)))"
  by (simp add: execute_and_report_def execute_query_unsupported)

lemma make_query_not_null:
  \<open>make_query QUERY_VALIDATE_NOT_NULL (get_query_params p table field) =
   Inr (''\<newline>with validation as (\<newline>  select "'' @ field @ ''" as f\<newline>  from "''
        @ target_schema p @ ''"."'' @ table
        @ ''"\<newline>)\<newline>select count(*) from validation where f is null\<newline>'')\<close>
  by (simp add: make_query_def QUERY_VALIDATE_NOT_NULL_def get_query_params_def)

lemma make_query_unique:
  \<open>make_query QUERY_VALIDATE_UNIQUE (get_query_params p table field) =
   Inr (''\<newline>with validation as (\<newline>  select "'' @ field @ ''" as f\<newline>  from "''
        @ target_schema p @ ''"."'' @ table
        @ ''"\<newline>)\<newline>select count(*) from (\<newline>  select f from validation group by f having count(*) > 1\<newline>)\<newline>'')\<close>
  by (simp add: make_query_def QUERY_VALIDATE_UNIQUE_def get_query_params_def)

lemma make_query_not_null_params:
  \<open>make_query QUERY_VALIDATE_NOT_NULL [(''schema'', schema), (''table'', table), (''field'', field)] =
   Inr (''\<newline>with validation as (\<newline>  select "'' @ field @ ''" as f\<newline>  from "''
        @ schema @ ''"."'' @ table
        @ ''"\<newline>)\<newline>select count(*) from validation where f is null\<newline>'')\<close>
  using make_query_not_null [of "\<lparr>python2 = False, target_type = [], target_schema = schema,
      handle_raises = None, cursor = (\<lambda>sql. Fetched None)\<rparr>" table field]
  by (simp add: get_query_params_def)

lemma make_query_unique_params:
  \<open>make_query QUERY_VALIDATE_UNIQUE [(''schema'', schema), (''table'', table), (''field'', field)] =
   Inr (''\<newline>with validation as (\<newline>  select "'' @ field @ ''" as f\<newline>  from "''
        @ schema @ ''"."'' @ table
        @ ''"\<newline>)\<newline>select count(*) from (\<newline>  select f from validation group by f having count(*) > 1\<newline>)\<newline>'')\<close>
  using make_query_unique [of "\<lparr>python2 = False, target_type = [], target_schema = schema,
      handle_raises = None, cursor = (\<lambda>sql. Fetched None)\<rparr>" table field]
  by (simp add: get_query_params_def)

lemma not_null_entry_yielded: "yielded (fst (not_null_entry p model table field)) = []"
  by (simp add: not_null_entry_def make_query_not_null execute_and_report_yielded)

lemma unique_entry_yielded: "yielded (fst (unique_entry p model table field)) = []"
  by (simp add: unique_entry_def make_query_unique execute_and_report_yielded)

lemma relationships_entry_yielded: "yielded (fst (relationships_entry p model table reference)) = []"
  by (simp add: relationships_entry_def make_query_referential_integrity execute_and_report_yielded
      Let_def split: sum.splits)

lemma dispatch_yielded: "yielded (fst (validate_schema_constraint p model ct cd)) = []"
  by (simp add: validate_schema_constraint_def constraint_map_def validate_not_null_def
      validate_unique_def validate_relationships_def for_each_yielded_nil not_null_entry_yielded
      unique_entry_yielded relationships_entry_yielded)

lemma not_null_entry_executed:
  "target_type p \<noteq> ''redshift'' \<Longrightarrow> executed (fst (not_null_entry p model table field)) = []"
  by (simp add: not_null_entry_def make_query_not_null execute_and_report_unsupported)

lemma unique_entry_executed:
  "target_type p \<noteq> ''redshift'' \<Longrightarrow> executed (fst (unique_entry p model table field)) = []"
  by (simp add: unique_entry_def make_query_unique execute_and_report_unsupported)

lemma relationships_entry_executed:
  "target_type p \<noteq> ''redshift'' \<Longrightarrow> executed (fst (relationships_entry p model table reference)) = []"
  by (simp add: relationships_entry_def make_query_referential_integrity execute_and_report_unsupported
      Let_def split: sum.splits)

lemma dispatch_executed:
  "target_type p \<noteq> ''redshift'' \<Longrightarrow> executed (fst (validate_schema_constraint p model ct cd)) = []"
  by (simp add: validate_schema_constraint_def constraint_map_def validate_not_null_def
      validate_unique_def validate_relationships_def for_each_executed_nil not_null_entry_executed
      unique_entry_executed relationships_entry_executed)

lemma try_constraint_yielded:
  "yielded (fst (try_constraint p model c)) =
     (if snd (validate_schema_constraint p model (fst c) (snd c)) = None then [model] else [])"
  using dispatch_yielded [of p model "fst c" "snd c"]
  by (auto simp: try_constraint_def split: prod.splits option.splits sum.splits)

lemma try_constraint_executed:
  "executed (fst (try_constraint p model c)) =
     executed (fst (validate_schema_constraint p model (fst c) (snd c)))"
  by (auto simp: try_constraint_def split: prod.splits option.splits sum.splits)




lemma validate_schema_executed_unsupported:
  assumes "target_type p \<noteq> ''redshift''"
  shows "executed (fst (validate_schema p schemas compiler)) = []"
  unfolding validate_schema_def validate_model_def
  by (intro for_each_executed_nil) (simp add: try_constraint_executed dispatch_executed [OF assms] for_each_executed_nil)


lemmas run_defs =
  validate_schema_def validate_model_def try_constraint_def validate_schema_constraint_def
  constraint_map_def validate_not_null_def validate_unique_def validate_relationships_def
  not_null_entry_def unique_entry_def relationships_entry_def make_query_not_null make_query_unique
  make_query_referential_integrity execute_and_report_def execute_query_def get_target_def report_def
  read_message_def Let_def

lemma validate_schema_head_raises:
  assumes "compiler g n" and "validate_schema_constraint p (g, n) ct cd = (evs, Some e)"
    and "\<not> isinstance_RuntimeError (cls e)"
  shows "validate_schema p ((g, (n, (ct, cd) # cs) # ms) # gs) compiler = (evs, Some e)"
  using assms by (simp add: validate_schema_head try_constraint_def)

lemma validate_schema_head_caught:
  assumes "compiler g n" and "validate_schema_constraint p (g, n) ct cd = (evs, Some e)"
    and "isinstance_RuntimeError (cls e)" and "read_message (python2 p) e = Inr m"
  shows "validate_schema p ((g, (n, (ct, cd) # cs) # ms) # gs) compiler =
     (evs @ Print (''ERRROR: '' @ m) # fst (validate_schema p ((g, (n, cs) # ms) # gs) compiler),
      snd (validate_schema p ((g, (n, cs) # ms) # gs) compiler))"
  using assms by (simp add: validate_schema_head try_constraint_def)

lemma validate_schema_head_no_message:
  assumes "compiler g n" and "validate_schema_constraint p (g, n) ct cd = (evs, Some e)"
    and "isinstance_RuntimeError (cls e)" and "read_message (python2 p) e = Inl a"
  shows "validate_schema p ((g, (n, (ct, cd) # cs) # ms) # gs) compiler = (evs, Some a)"
  using assms by (simp add: validate_schema_head try_constraint_def)

subsection \<open>An entry of a handler\<close>

lemma execute_and_report_raises:
  "execute_query p model sql = (evs, Inl e) \<Longrightarrow>
   execute_and_report p model heading sql = (Print heading # evs, Some e)"
  by (simp add: execute_and_report_def)

lemma execute_and_report_returns:
  "execute_query p model sql = (evs, Inr num_rows) \<Longrightarrow>
   execute_and_report p model heading sql = (Print heading # evs @ [report num_rows], None)"
  by (simp add: execute_and_report_def)

lemma for_each_entry_raises:
  assumes "snd (for_each body earlier) = None" and "body x = (evs, Some e)"
  shows "for_each body (earlier @ x # later) = (fst (for_each body earlier) @ evs, Some e)"
  using assms by (cases "for_each body earlier") (simp add: for_each_append)

lemma for_each_entry_returns:
  assumes "body x = (evs, None)"
  shows "for_each body (x # later) = (evs @ fst (for_each body later), snd (for_each body later))"
  using assms by (simp split: prod.splits)

lemma validate_not_null_raises:
  assumes "make_query QUERY_VALIDATE_NOT_NULL (get_query_params p (snd model) (py_str x)) = Inr sql"
    and "execute_query p model sql = (evs, Inl e)"
    and "snd (validate_not_null p model earlier) = None"
  shows "validate_not_null p model (earlier @ x # later) =
     (fst (validate_not_null p model earlier)
        @ Print (''VALIDATE NOT NULL '' @ dq (snd model) @ ''.'' @ dq (py_str x)) # evs,
      Some e)"
proof -
  from assms(1,2) have "not_null_entry p model (snd model) x =
      (Print (''VALIDATE NOT NULL '' @ dq (snd model) @ ''.'' @ dq (py_str x)) # evs, Some e)"
    by (simp add: not_null_entry_def execute_and_report_raises)
  with assms(3) show ?thesis
    unfolding validate_not_null_def Let_def by (rule for_each_entry_raises)
qed

lemma validate_not_null_returns:
  assumes "make_query QUERY_VALIDATE_NOT_NULL (get_query_params p (snd model) (py_str x)) = Inr sql"
    and "execute_query p model sql = (evs, Inr num_rows)"
  shows "validate_not_null p model (x # later) =
     (Print (''VALIDATE NOT NULL '' @ dq (snd model) @ ''.'' @ dq (py_str x)) # evs
        @ report num_rows # fst (validate_not_null p model later),
      snd (validate_not_null p model later))"
proof -
  from assms have "not_null_entry p model (snd model) x =
      (Print (''VALIDATE NOT NULL '' @ dq (snd model) @ ''.'' @ dq (py_str x)) # evs
         @ [report num_rows], None)"
    by (simp add: not_null_entry_def execute_and_report_returns)
  then show ?thesis
    unfolding validate_not_null_def Let_def by (simp split: prod.splits)
qed

lemma validate_unique_raises:
  assumes "make_query QUERY_VALIDATE_UNIQUE (get_query_params p (snd model) (py_str x)) = Inr sql"
    and "execute_query p model sql = (evs, Inl e)"
    and "snd (validate_unique p model earlier) = None"
  shows "validate_unique p model (earlier @ x # later) =
     (fst (validate_unique p model earlier)
        @ Print (''VALIDATE UNIQUE '' @ dq (snd model) @ ''.'' @ dq (py_str x)) # evs,
      Some e)"
proof -
  from assms(1,2) have "unique_entry p model (snd model) x =
      (Print (''VALIDATE UNIQUE '' @ dq (snd model) @ ''.'' @ dq (py_str x)) # evs, Some e)"
    by (simp add: unique_entry_def execute_and_report_raises)
  with assms(3) show ?thesis
    unfolding validate_unique_def Let_def by (rule for_each_entry_raises)
qed

lemma validate_unique_returns:
  assumes "make_query QUERY_VALIDATE_UNIQUE (get_query_params p (snd model) (py_str x)) = Inr sql"
    and "execute_query p model sql = (evs, Inr num_rows)"
  shows "validate_unique p model (x # later) =
     (Print (''VALIDATE UNIQUE '' @ dq (snd model) @ ''.'' @ dq (py_str x)) # evs
        @ report num_rows # fst (validate_unique p model later),
      snd (validate_unique p model later))"
proof -
  from assms have "unique_entry p model (snd model) x =
      (Print (''VALIDATE UNIQUE '' @ dq (snd model) @ ''.'' @ dq (py_str x)) # evs
         @ [report num_rows], None)"
    by (simp add: unique_entry_def execute_and_report_returns)
  then show ?thesis
    unfolding validate_unique_def Let_def by (simp split: prod.splits)
qed

lemma validate_relationships_raises:
  assumes "getitem x ''from'' = Inr ref_from" and "getitem x ''to'' = Inr ref_to"
    and "getitem x ''field'' = Inr ref_field"
    and "make_query QUERY_VALIDATE_REFERENTIAL_INTEGRITY
           [(''schema'', target_schema p), (''parent_table'', snd model),
            (''parent_field'', ref_from), (''child_table'', ref_to),
            (''child_field'', ref_field)] = Inr sql"
    and "execute_query p model sql = (evs, Inl e)"
    and "snd (validate_relationships p model earlier) = None"
  shows "validate_relationships p model (earlier @ x # later) =
     (fst (validate_relationships p model earlier)
        @ Print (''VALIDATE REFERENTIAL INTEGRITY '' @ dq (snd model) @ ''.'' @ dq ref_from
                 @ '' to '' @ dq ref_to @ ''.'' @ dq ref_field) # evs,
      Some e)"
proof -
  from assms(1-5) have "relationships_entry p model (snd model) x =
      (Print (''VALIDATE REFERENTIAL INTEGRITY '' @ dq (snd model) @ ''.'' @ dq ref_from
                 @ '' to '' @ dq ref_to @ ''.'' @ dq ref_field) # evs, Some e)"
    by (simp add: relationships_entry_def execute_and_report_raises)
  with assms(6) show ?thesis
    unfolding validate_relationships_def Let_def by (rule for_each_entry_raises)
qed

lemma validate_relationships_returns:
  assumes "getitem x ''from'' = Inr ref_from" and "getitem x ''to'' = Inr ref_to"
    and "getitem x ''field'' = Inr ref_field"
    and "make_query QUERY_VALIDATE_REFERENTIAL_INTEGRITY
           [(''schema'', target_schema p), (''parent_table'', snd model),
            (''parent_field'', ref_from), (''child_table'', ref_to),
            (''child_field'', ref_field)] = Inr sql"
    and "execute_query p model sql = (evs, Inr num_rows)"
  shows "validate_relationships p model (x # later) =
     (Print (''VALIDATE REFERENTIAL INTEGRITY '' @ dq (snd model) @ ''.'' @ dq ref_from
                 @ '' to '' @ dq ref_to @ ''.'' @ dq ref_field) # evs
        @ report num_rows # fst (validate_relationships p model later),
      snd (validate_relationships p model later))"
proof -
  from assms have "relationships_entry p model (snd model) x =
      (Print (''VALIDATE REFERENTIAL INTEGRITY '' @ dq (snd model) @ ''.'' @ dq ref_from
                 @ '' to '' @ dq ref_to @ ''.'' @ dq ref_field) # evs @ [report num_rows], None)"
    by (simp add: relationships_entry_def execute_and_report_returns)
  then show ?thesis
    unfolding validate_relationships_def Let_def by (simp split: prod.splits)
qed

lemma dispatch_known:
  "validate_schema_constraint p model ''not_null'' cd = validate_not_null p model cd"
  "validate_schema_constraint p model ''unique'' cd = validate_unique p model cd"
  "validate_schema_constraint p model ''relationships'' cd = validate_relationships p model cd"
  by (simp_all add: validate_schema_constraint_def constraint_map_def)

lemma read_message_model_attr [simp]:
  "read_message py2 (e\<lparr>model_attr := m\<rparr>) = read_message py2 e"
  by (cases "own_message e") (simp_all add: read_message_def)

text \<open>
  C1, as amended. When \<^verbatim>\<open>cursor.execute\<close> raises an exception \<open>e\<close> (an instance
  of \<^verbatim>\<open>Exception\<close>) for the statement of an entry of model \<open>(g, n)\<close>,
  \<^verbatim>\<open>execute_query\<close> raises \<open>e\<close> again with the model attached, and none of the
  three handlers catches it: the dispatcher raises it for the constraint type, whatever
  the position of the entry. At the per-constraint boundary of
  \<^verbatim>\<open>validate_schema\<close> an error that is not an instance of
  \<^verbatim>\<open>RuntimeError\<close> is not caught and leaves the run there, with the model
  attached; an instance of \<^verbatim>\<open>RuntimeError\<close> is caught, and when its message can
  be read it is reported and the run goes on with the next constraint type.
\<close>

theorem statement_failure_tagged_caught_if_RuntimeError:
  assumes "target_type p = ''redshift''" and "handle_raises p = None"
    and "cursor p sql = Execute_raises e" and "isinstance_Exception (cls e)"
  shows "execute_query p (g, n) sql = ([Execute sql], Inl (e\<lparr>model_attr := Some (g, n)\<rparr>))
    \<and> (make_query QUERY_VALIDATE_NOT_NULL (get_query_params p n (py_str x)) = Inr sql
         \<and> snd (validate_not_null p (g, n) earlier) = None
        \<longrightarrow> validate_schema_constraint p (g, n) ''not_null'' (earlier @ x # later) =
              (fst (validate_not_null p (g, n) earlier)
                 @ [Print (''VALIDATE NOT NULL '' @ dq n @ ''.'' @ dq (py_str x)), Execute sql],
               Some (e\<lparr>model_attr := Some (g, n)\<rparr>)))
    \<and> (make_query QUERY_VALIDATE_UNIQUE (get_query_params p n (py_str x)) = Inr sql
         \<and> snd (validate_unique p (g, n) earlier) = None
        \<longrightarrow> validate_schema_constraint p (g, n) ''unique'' (earlier @ x # later) =
              (fst (validate_unique p (g, n) earlier)
                 @ [Print (''VALIDATE UNIQUE '' @ dq n @ ''.'' @ dq (py_str x)), Execute sql],
               Some (e\<lparr>model_attr := Some (g, n)\<rparr>)))
    \<and> (getitem x ''from'' = Inr ref_from \<and> getitem x ''to'' = Inr ref_to
         \<and> getitem x ''field'' = Inr ref_field
         \<and> make_query QUERY_VALIDATE_REFERENTIAL_INTEGRITY
              [(''schema'', target_schema p), (''parent_table'', n), (''parent_field'', ref_from),
               (''child_table'', ref_to), (''child_field'', ref_field)] = Inr sql
         \<and> snd (validate_relationships p (g, n) earlier) = None
        \<longrightarrow> validate_schema_constraint p (g, n) ''relationships'' (earlier @ x # later) =
              (fst (validate_relationships p (g, n) earlier)
                 @ [Print (''VALIDATE REFERENTIAL INTEGRITY '' @ dq n @ ''.'' @ dq ref_from
                           @ '' to '' @ dq ref_to @ ''.'' @ dq ref_field), Execute sql],
               Some (e\<lparr>model_attr := Some (g, n)\<rparr>)))
    \<and> (compiler g n
         \<and> validate_schema_constraint p (g, n) ct cd = (evs, Some (e\<lparr>model_attr := Some (g, n)\<rparr>))
         \<and> \<not> isinstance_RuntimeError (cls e)
        \<longrightarrow> validate_schema p ((g, (n, (ct, cd) # cs) # ms) # gs) compiler =
              (evs, Some (e\<lparr>model_attr := Some (g, n)\<rparr>)))
    \<and> (compiler g n
         \<and> validate_schema_constraint p (g, n) ct cd = (evs, Some (e\<lparr>model_attr := Some (g, n)\<rparr>))
         \<and> isinstance_RuntimeError (cls e) \<and> read_message (python2 p) e = Inr m
        \<longrightarrow> validate_schema p ((g, (n, (ct, cd) # cs) # ms) # gs) compiler =
              (evs @ Print (''ERRROR: '' @ m)
                 # fst (validate_schema p ((g, (n, cs) # ms) # gs) compiler),
               snd (validate_schema p ((g, (n, cs) # ms) # gs) compiler)))"
proof -
  let ?e = "e\<lparr>model_attr := Some (g, n)\<rparr>"
  have q: "execute_query p (g, n) sql = ([Execute sql], Inl ?e)"
    using assms by (simp add: execute_query_def get_target_def)
  have nn: "validate_schema_constraint p (g, n) ''not_null'' (earlier @ x # later) =
              (fst (validate_not_null p (g, n) earlier)
                 @ [Print (''VALIDATE NOT NULL '' @ dq n @ ''.'' @ dq (py_str x)), Execute sql],
               Some ?e)"
    if "make_query QUERY_VALIDATE_NOT_NULL (get_query_params p n (py_str x)) = Inr sql"
      and "snd (validate_not_null p (g, n) earlier) = None"
    using validate_not_null_raises [of p "(g, n)" x sql "[Execute sql]" ?e earlier later] that q
    by (simp add: dispatch_known)
  have un: "validate_schema_constraint p (g, n) ''unique'' (earlier @ x # later) =
              (fst (validate_unique p (g, n) earlier)
                 @ [Print (''VALIDATE UNIQUE '' @ dq n @ ''.'' @ dq (py_str x)), Execute sql],
               Some ?e)"
    if "make_query QUERY_VALIDATE_UNIQUE (get_query_params p n (py_str x)) = Inr sql"
      and "snd (validate_unique p (g, n) earlier) = None"
    using validate_unique_raises [of p "(g, n)" x sql "[Execute sql]" ?e earlier later] that q
    by (simp add: dispatch_known)
  have rel: "validate_schema_constraint p (g, n) ''relationships'' (earlier @ x # later) =
              (fst (validate_relationships p (g, n) earlier)
                 @ [Print (''VALIDATE REFERENTIAL INTEGRITY '' @ dq n @ ''.'' @ dq ref_from
                           @ '' to '' @ dq ref_to @ ''.'' @ dq ref_field), Execute sql],
               Some ?e)"
    if "getitem x ''from'' = Inr ref_from" and "getitem x ''to'' = Inr ref_to"
      and "getitem x ''field'' = Inr ref_field"
      and "make_query QUERY_VALIDATE_REFERENTIAL_INTEGRITY
              [(''schema'', target_schema p), (''parent_table'', n), (''parent_field'', ref_from),
               (''child_table'', ref_to), (''child_field'', ref_field)] = Inr sql"
      and "snd (validate_relationships p (g, n) earlier) = None"
    using validate_relationships_raises
      [of x ref_from ref_to ref_field p "(g, n)" sql "[Execute sql]" ?e earlier later] that q
    by (simp add: dispatch_known)
  have fatal: "validate_schema p ((g, (n, (ct, cd) # cs) # ms) # gs) compiler = (evs, Some ?e)"
    if "compiler g n" and "validate_schema_constraint p (g, n) ct cd = (evs, Some ?e)"
      and "\<not> isinstance_RuntimeError (cls e)"
    using that by (simp add: validate_schema_head try_constraint_def)
  have caught: "validate_schema p ((g, (n, (ct, cd) # cs) # ms) # gs) compiler =
              (evs @ Print (''ERRROR: '' @ m)
                 # fst (validate_schema p ((g, (n, cs) # ms) # gs) compiler),
               snd (validate_schema p ((g, (n, cs) # ms) # gs) compiler))"
    if "compiler g n" and "validate_schema_constraint p (g, n) ct cd = (evs, Some ?e)"
      and "isinstance_RuntimeError (cls e)" and "read_message (python2 p) e = Inr m"
    using that by (simp add: validate_schema_head try_constraint_def)
  from q nn un rel fatal caught show ?thesis by blast
qed

theorem statement_failure_tagged_caught_if_RuntimeError_witness:
  "snd (validate_schema_constraint (redshift_project (\<lambda>sql. Execute_raises runtime_driver_error))
          (''shop'', ''orders'') ''not_null'' [Scalar ''id'', Scalar ''customer_id'']) =
     Some (runtime_driver_error\<lparr>model_attr := Some (''shop'', ''orders'')\<rparr>)
   \<and> snd (validate_schema_constraint (redshift_project (\<lambda>sql. Execute_raises runtime_driver_error))
          (''shop'', ''orders'') ''unique'' [Scalar ''id'']) =
     Some (runtime_driver_error\<lparr>model_attr := Some (''shop'', ''orders'')\<rparr>)
   \<and> snd (validate_schema_constraint (redshift_project (\<lambda>sql. Execute_raises runtime_driver_error))
          (''shop'', ''orders'') ''relationships'' [to_customers]) =
     Some (runtime_driver_error\<lparr>model_attr := Some (''shop'', ''orders'')\<rparr>)
   \<and> printed (fst (validate_schema (redshift_project (\<lambda>sql. Execute_raises runtime_driver_error))
                   shop_schemas all_enabled)) =
     [''VALIDATE NOT NULL '' @ dq ''orders'' @ ''.'' @ dq ''id'',
      ''ERRROR: statement cancelled'',
      ''VALIDATE UNIQUE '' @ dq ''orders'' @ ''.'' @ dq ''id'',
      ''ERRROR: statement cancelled'',
      ''VALIDATE UNIQUE '' @ dq ''customers'' @ ''.'' @ dq ''id'',
      ''ERRROR: statement cancelled'']
   \<and> snd (validate_schema (redshift_project (\<lambda>sql. Execute_raises runtime_driver_error))
            shop_schemas all_enabled) = None"
proof -
  let ?p = "redshift_project (\<lambda>sql. Execute_raises runtime_driver_error)"
  let ?e = "runtime_driver_error\<lparr>model_attr := Some (''shop'', ''orders'')\<rparr>"
  have h1: "target_type ?p = ''redshift''" and h2: "handle_raises ?p = None"
    and h3: "cursor ?p sql = Execute_raises runtime_driver_error"
    and h4: "isinstance_Exception (cls runtime_driver_error)" for sql
    by (simp_all add: redshift_project_def runtime_driver_error_def)
  note t = statement_failure_tagged_caught_if_RuntimeError [OF h1 h2 h3 h4]
  obtain s1 where s1: "make_query QUERY_VALIDATE_NOT_NULL
      (get_query_params ?p ''orders'' (py_str (Scalar ''id''))) = Inr s1"
    by (simp add: make_query_not_null)
  obtain s2 where s2: "make_query QUERY_VALIDATE_UNIQUE
      (get_query_params ?p ''orders'' (py_str (Scalar ''id''))) = Inr s2"
    by (simp add: make_query_unique)
  obtain s3 where s3: "make_query QUERY_VALIDATE_REFERENTIAL_INTEGRITY
      [(''schema'', target_schema ?p), (''parent_table'', ''orders''), (''parent_field'', ''customer_id''),
       (''child_table'', ''customers''), (''child_field'', ''id'')] = Inr s3"
    by (simp add: make_query_referential_integrity)
  have g: "getitem to_customers ''from'' = Inr ''customer_id''"
    "getitem to_customers ''to'' = Inr ''customers''" "getitem to_customers ''field'' = Inr ''id''"
    by (simp_all add: to_customers_def)
  have e: "snd (validate_not_null ?p (''shop'', ''orders'') []) = None"
    "snd (validate_unique ?p (''shop'', ''orders'') []) = None"
    "snd (validate_relationships ?p (''shop'', ''orders'') []) = None"
    by (simp_all add: validate_not_null_def validate_unique_def validate_relationships_def)
  from t [where sql = s1 and g = "''shop''" and n = "''orders''" and x = "Scalar ''id''"
      and earlier = "[]" and later = "[Scalar ''customer_id'']"] s1 e
  have a: "snd (validate_schema_constraint ?p (''shop'', ''orders'') ''not_null''
                  [Scalar ''id'', Scalar ''customer_id'']) = Some ?e"
    by simp
  from t [where sql = s2 and g = "''shop''" and n = "''orders''" and x = "Scalar ''id''"
      and earlier = "[]" and later = "[]"] s2 e
  have b: "snd (validate_schema_constraint ?p (''shop'', ''orders'') ''unique'' [Scalar ''id'']) = Some ?e"
    by simp
  from t [where sql = s3 and g = "''shop''" and n = "''orders''" and x = to_customers
      and earlier = "[]" and later = "[]" and ref_from = "''customer_id''"
      and ref_to = "''customers''" and ref_field = "''id''"] s3 g e
  have c: "snd (validate_schema_constraint ?p (''shop'', ''orders'') ''relationships'' [to_customers]) = Some ?e"
    by simp
  have d: "printed (fst (validate_schema ?p shop_schemas all_enabled)) =
     [''VALIDATE NOT NULL '' @ dq ''orders'' @ ''.'' @ dq ''id'',
      ''ERRROR: statement cancelled'',
      ''VALIDATE UNIQUE '' @ dq ''orders'' @ ''.'' @ dq ''id'',
      ''ERRROR: statement cancelled'',
      ''VALIDATE UNIQUE '' @ dq ''customers'' @ ''.'' @ dq ''id'',
      ''ERRROR: statement cancelled'']
   \<and> snd (validate_schema ?p shop_schemas all_enabled) = None"
    by (simp add: run_defs redshift_project_def runtime_driver_error_def shop_schemas_def
        all_enabled_def dq_def)
  from a b c d show ?thesis by blast
qed

text \<open>
  C1 as it was stated fails: the driver's error is not a \<^verbatim>\<open>RuntimeError\<close>, and
  the run ends with it at the first statement; nothing is reported and the later
  constraints and models are not evaluated.
\<close>

theorem statement_failure_propagates_counterexample:
  "snd (validate_schema (redshift_project (\<lambda>sql. Execute_raises driver_error))
          shop_schemas all_enabled) =
     Some (driver_error\<lparr>model_attr := Some (''shop'', ''orders'')\<rparr>)
   \<and> printed (fst (validate_schema (redshift_project (\<lambda>sql. Execute_raises driver_error))
                     shop_schemas all_enabled)) =
     [''VALIDATE NOT NULL '' @ dq ''orders'' @ ''.'' @ dq ''id'']"
  by (simp add: run_defs redshift_project_def driver_error_def shop_schemas_def
        all_enabled_def dq_def)



text \<open>
  C3, as amended. A handler processes the entries of its payload strictly in declared
  order. An entry whose statement returns a count, zero or not, is reported and followed
  by the next entry. An exception raised while the statement of an entry is executed is
  not caught in the handler: it ends the handler invocation, whatever entries follow,
  and those are neither evaluated nor reported in that invocation. This holds for each
  of the three handlers.
\<close>

theorem handler_stops_at_first_exception:
  "(make_query QUERY_VALIDATE_NOT_NULL (get_query_params p (snd model) (py_str x)) = Inr sql
      \<and> execute_query p model sql = (evs, Inl e) \<and> snd (validate_not_null p model earlier) = None
     \<longrightarrow> validate_not_null p model (earlier @ x # later) =
           (fst (validate_not_null p model earlier)
              @ Print (''VALIDATE NOT NULL '' @ dq (snd model) @ ''.'' @ dq (py_str x)) # evs,
            Some e))
   \<and> (make_query QUERY_VALIDATE_NOT_NULL (get_query_params p (snd model) (py_str x)) = Inr sql
      \<and> execute_query p model sql = (evs, Inr num_rows)
     \<longrightarrow> validate_not_null p model (x # later) =
           (Print (''VALIDATE NOT NULL '' @ dq (snd model) @ ''.'' @ dq (py_str x)) # evs
              @ report num_rows # fst (validate_not_null p model later),
            snd (validate_not_null p model later)))
   \<and> (make_query QUERY_VALIDATE_UNIQUE (get_query_params p (snd model) (py_str x)) = Inr sql
      \<and> execute_query p model sql = (evs, Inl e) \<and> snd (validate_unique p model earlier) = None
     \<longrightarrow> validate_unique p model (earlier @ x # later) =
           (fst (validate_unique p model earlier)
              @ Print (''VALIDATE UNIQUE '' @ dq (snd model) @ ''.'' @ dq (py_str x)) # evs,
            Some e))
   \<and> (make_query QUERY_VALIDATE_UNIQUE (get_query_params p (snd model) (py_str x)) = Inr sql
      \<and> execute_query p model sql = (evs, Inr num_rows)
     \<longrightarrow> validate_unique p model (x # later) =
           (Print (''VALIDATE UNIQUE '' @ dq (snd model) @ ''.'' @ dq (py_str x)) # evs
              @ report num_rows # fst (validate_unique p model later),
            snd (validate_unique p model later)))
   \<and> (getitem x ''from'' = Inr ref_from \<and> getitem x ''to'' = Inr ref_to
      \<and> getitem x ''field'' = Inr ref_field
      \<and> make_query QUERY_VALIDATE_REFERENTIAL_INTEGRITY
           [(''schema'', target_schema p), (''parent_table'', snd model),
            (''parent_field'', ref_from), (''child_table'', ref_to),
            (''child_field'', ref_field)] = Inr sql
      \<and> execute_query p model sql = (evs, Inl e)
      \<and> snd (validate_relationships p model earlier) = None
     \<longrightarrow> validate_relationships p model (earlier @ x # later) =
           (fst (validate_relationships p model earlier)
              @ Print (''VALIDATE REFERENTIAL INTEGRITY '' @ dq (snd model) @ ''.'' @ dq ref_from
                       @ '' to '' @ dq ref_to @ ''.'' @ dq ref_field) # evs,
            Some e))
   \<and> (getitem x ''from'' = Inr ref_from \<and> getitem x ''to'' = Inr ref_to
      \<and> getitem x ''field'' = Inr ref_field
      \<and> make_query QUERY_VALIDATE_REFERENTIAL_INTEGRITY
           [(''schema'', target_schema p), (''parent_table'', snd model),
            (''parent_field'', ref_from), (''child_table'', ref_to),
            (''child_field'', ref_field)] = Inr sql
      \<and> execute_query p model sql = (evs, Inr num_rows)
     \<longrightarrow> validate_relationships p model (x # later) =
           (Print (''VALIDATE REFERENTIAL INTEGRITY '' @ dq (snd model) @ ''.'' @ dq ref_from
                       @ '' to '' @ dq ref_to @ ''.'' @ dq ref_field) # evs
              @ report num_rows # fst (validate_relationships p model later),
            snd (validate_relationships p model later)))
   \<and> (target_type p = ''redshift'' \<and> handle_raises p = None
      \<and> cursor p sql = Fetched (Some [num_rows])
     \<longrightarrow> execute_query p model sql = ([Execute sql], Inr num_rows))
   \<and> (handler \<in> {validate_not_null, validate_unique, validate_relationships}
     \<longrightarrow> handler p model (xs @ ys) =
           (case handler p model xs of
              (evs, Some e) \<Rightarrow> (evs, Some e)
            | (evs, None) \<Rightarrow> (evs @ fst (handler p model ys), snd (handler p model ys))))"
proof -
  have loop: "for_each body (xs @ ys) =
       (case for_each body xs of
          (evs, Some e) \<Rightarrow> (evs, Some e)
        | (evs, None) \<Rightarrow> (evs @ fst (for_each body ys), snd (for_each body ys)))"
    for body :: "entry \<Rightarrow> outcome"
    by (simp add: for_each_append split: prod.splits option.splits)
  have order: "h p model (xs @ ys) =
       (case h p model xs of
          (evs, Some e) \<Rightarrow> (evs, Some e)
        | (evs, None) \<Rightarrow> (evs @ fst (h p model ys), snd (h p model ys)))"
    if "h \<in> {validate_not_null, validate_unique, validate_relationships}" for h
    using that unfolding validate_not_null_def validate_unique_def validate_relationships_def Let_def
    by (elim insertE emptyE) (simp_all only: loop)
  have count: "execute_query p model sql = ([Execute sql], Inr num_rows)"
    if "target_type p = ''redshift''" "handle_raises p = None"
      "cursor p sql = Fetched (Some [num_rows])"
    using that by (simp add: execute_query_def get_target_def)
  from validate_not_null_raises [of p model x sql evs e earlier later]
    validate_not_null_returns [of p model x sql evs num_rows later]
    validate_unique_raises [of p model x sql evs e earlier later]
    validate_unique_returns [of p model x sql evs num_rows later]
    validate_relationships_raises [of x ref_from ref_to ref_field p model sql evs e earlier later]
    validate_relationships_returns [of x ref_from ref_to ref_field p model sql evs num_rows later]
    count order [of handler]
  show ?thesis by blast
qed

theorem handler_stops_at_first_exception_witness:
  "validate_not_null (redshift_project cancelling_cursor) (''shop'', ''orders'')
     [Scalar ''id'', Scalar ''customer_id''] =
   validate_not_null (redshift_project cancelling_cursor) (''shop'', ''orders'') [Scalar ''id'']
   \<and> snd (validate_not_null (redshift_project cancelling_cursor) (''shop'', ''orders'')
            [Scalar ''id'', Scalar ''customer_id'']) =
      Some (runtime_driver_error\<lparr>model_attr := Some (''shop'', ''orders'')\<rparr>)
   \<and> validate_unique (redshift_project cancelling_cursor) (''shop'', ''orders'')
     [Scalar ''id'', Scalar ''customer_id''] =
   validate_unique (redshift_project cancelling_cursor) (''shop'', ''orders'') [Scalar ''id'']
   \<and> snd (validate_unique (redshift_project cancelling_cursor) (''shop'', ''orders'')
            [Scalar ''id'', Scalar ''customer_id'']) =
      Some (runtime_driver_error\<lparr>model_attr := Some (''shop'', ''orders'')\<rparr>)
   \<and> validate_relationships (redshift_project cancelling_cursor) (''shop'', ''orders'')
     [to_line_items, to_shipments] =
   validate_relationships (redshift_project cancelling_cursor) (''shop'', ''orders'') [to_line_items]
   \<and> snd (validate_relationships (redshift_project cancelling_cursor) (''shop'', ''orders'')
            [to_line_items, to_shipments]) =
      Some (runtime_driver_error\<lparr>model_attr := Some (''shop'', ''orders'')\<rparr>)"
proof -
  let ?p = "redshift_project cancelling_cursor"
  let ?m = "(''shop'', ''orders'')"
  let ?e = "runtime_driver_error\<lparr>model_attr := Some (''shop'', ''orders'')\<rparr>"
  obtain s1 where s1: "make_query QUERY_VALIDATE_NOT_NULL
      (get_query_params ?p (snd ?m) (py_str (Scalar ''id''))) = Inr s1"
    by (simp add: make_query_not_null)
  obtain s2 where s2: "make_query QUERY_VALIDATE_UNIQUE
      (get_query_params ?p (snd ?m) (py_str (Scalar ''id''))) = Inr s2"
    by (simp add: make_query_unique)
  obtain s3 where s3: "make_query QUERY_VALIDATE_REFERENTIAL_INTEGRITY
      [(''schema'', target_schema ?p), (''parent_table'', snd ?m), (''parent_field'', ''id''),
       (''child_table'', ''line_items''), (''child_field'', ''order_id'')] = Inr s3"
    by (simp add: make_query_referential_integrity)
  have c: "cursor ?p s1 = Execute_raises runtime_driver_error"
    "cursor ?p s2 = Execute_raises runtime_driver_error"
    "cursor ?p s3 = Execute_raises runtime_driver_error"
    using s1 s2 s3
    by (simp_all add: redshift_project_def cancelling_cursor_def cancelled_statements_def
        get_query_params_def)
  have q: "execute_query ?p ?m s = ([Execute s], Inl ?e)"
    if "cursor ?p s = Execute_raises runtime_driver_error" for s
    using that by (simp add: execute_query_def get_target_def redshift_project_def
        runtime_driver_error_def)
  have g: "getitem to_line_items ''from'' = Inr ''id''"
    "getitem to_line_items ''to'' = Inr ''line_items''"
    "getitem to_line_items ''field'' = Inr ''order_id''"
    by (simp_all add: to_line_items_def)
  have e: "validate_not_null ?p ?m [] = ([], None)" "validate_unique ?p ?m [] = ([], None)"
    "validate_relationships ?p ?m [] = ([], None)"
    by (simp_all add: validate_not_null_def validate_unique_def validate_relationships_def)
  note t = handler_stops_at_first_exception [where p = ?p and model = ?m and earlier = "[]"
      and e = ?e]
  have a: "validate_not_null ?p ?m ([] @ Scalar ''id'' # later) =
      ([Print (''VALIDATE NOT NULL '' @ dq ''orders'' @ ''.'' @ dq ''id''), Execute s1], Some ?e)"
    for later
    using t [where sql = s1 and x = "Scalar ''id''" and evs = "[Execute s1]" and later = later]
      s1 q [OF c(1)] e by simp
  have b: "validate_unique ?p ?m ([] @ Scalar ''id'' # later) =
      ([Print (''VALIDATE UNIQUE '' @ dq ''orders'' @ ''.'' @ dq ''id''), Execute s2], Some ?e)"
    for later
    using t [where sql = s2 and x = "Scalar ''id''" and evs = "[Execute s2]" and later = later]
      s2 q [OF c(2)] e by simp
  have r: "validate_relationships ?p ?m ([] @ to_line_items # later) =
      ([Print (''VALIDATE REFERENTIAL INTEGRITY '' @ dq ''orders'' @ ''.'' @ dq ''id''
               @ '' to '' @ dq ''line_items'' @ ''.'' @ dq ''order_id''), Execute s3], Some ?e)"
    for later
    using t [where sql = s3 and x = to_line_items and evs = "[Execute s3]" and later = later
        and ref_from = "''id''" and ref_to = "''line_items''" and ref_field = "''order_id''"]
      s3 g q [OF c(3)] e by simp
  from a [of "[Scalar ''customer_id'']"] a [of "[]"] b [of "[Scalar ''customer_id'']"] b [of "[]"]
    r [of "[to_shipments]"] r [of "[]"]
  show ?thesis by simp
qed

text \<open>
  C3 as it was stated fails, for each kind of payload: the statement of the first entry
  is cancelled, and the entry after it, whose check would pass, is neither executed nor
  reported.
\<close>

theorem later_entries_not_evaluated_counterexample:
  "printed (fst (validate_not_null (redshift_project cancelling_cursor) (''shop'', ''orders'')
                   [Scalar ''id'', Scalar ''customer_id''])) =
     [''VALIDATE NOT NULL '' @ dq ''orders'' @ ''.'' @ dq ''id'']
   \<and> length (executed (fst (validate_not_null (redshift_project cancelling_cursor)
                   (''shop'', ''orders'') [Scalar ''id'', Scalar ''customer_id'']))) = 1
   \<and> printed (fst (validate_not_null (redshift_project cancelling_cursor) (''shop'', ''orders'')
                   [Scalar ''customer_id''])) =
     [''VALIDATE NOT NULL '' @ dq ''orders'' @ ''.'' @ dq ''customer_id'', ''  OK'']
   \<and> printed (fst (validate_unique (redshift_project cancelling_cursor) (''shop'', ''orders'')
                   [Scalar ''id'', Scalar ''customer_id''])) =
     [''VALIDATE UNIQUE '' @ dq ''orders'' @ ''.'' @ dq ''id'']
   \<and> length (executed (fst (validate_unique (redshift_project cancelling_cursor)
                   (''shop'', ''orders'') [Scalar ''id'', Scalar ''customer_id'']))) = 1
   \<and> printed (fst (validate_unique (redshift_project cancelling_cursor) (''shop'', ''orders'')
                   [Scalar ''customer_id''])) =
     [''VALIDATE UNIQUE '' @ dq ''orders'' @ ''.'' @ dq ''customer_id'', ''  OK'']
   \<and> printed (fst (validate_relationships (redshift_project cancelling_cursor) (''shop'', ''orders'')
                   [to_line_items, to_shipments])) =
     [''VALIDATE REFERENTIAL INTEGRITY '' @ dq ''orders'' @ ''.'' @ dq ''id''
      @ '' to '' @ dq ''line_items'' @ ''.'' @ dq ''order_id'']
   \<and> length (executed (fst (validate_relationships (redshift_project cancelling_cursor)
                   (''shop'', ''orders'') [to_line_items, to_shipments]))) = 1
   \<and> printed (fst (validate_relationships (redshift_project cancelling_cursor) (''shop'', ''orders'')
                   [to_shipments])) =
     [''VALIDATE REFERENTIAL INTEGRITY '' @ dq ''orders'' @ ''.'' @ dq ''id''
      @ '' to '' @ dq ''shipments'' @ ''.'' @ dq ''order_id'', ''  OK'']"
  by (simp add: run_defs redshift_project_def cancelling_cursor_def cancelled_statements_def
      runtime_driver_error_def dq_def make_query_not_null_params make_query_unique_params
      get_query_params_def to_line_items_def to_shipments_def)






text \<open>
  C4. With a target type other than \<open>redshift\<close>, \<^verbatim>\<open>get_target\<close> raises the
  unsupported-target error before a statement is executed, and no query runs. The error
  is to end the run and reach the caller. It does not: \<^verbatim>\<open>get_target\<close> is called
  inside the \<^verbatim>\<open>try\<close> of \<^verbatim>\<open>validate_schema\<close>, the error is a
  \<^verbatim>\<open>NotImplementedError\<close>, a subclass of \<^verbatim>\<open>RuntimeError\<close>, and the
  \<^verbatim>\<open>except\<close> clause catches it. With the target type \<open>postgres\<close>, under
  Python 2 the run prints the error once for each constraint type and ends without an
  exception; under Python 3 the read of \<^verbatim>\<open>e.message\<close> raises, and what reaches
  the caller is an \<^verbatim>\<open>AttributeError\<close>.
\<close>

theorem unsupported_target_not_fatal:
  "target_type postgres_project \<noteq> ''redshift''
   \<and> execute_query postgres_project (''shop'', ''orders'') ''select 1'' =
       ([], Inl (unknown_target_type ''postgres''))
   \<and> cls (unknown_target_type ''postgres'') = NotImplementedError
   \<and> isinstance_RuntimeError NotImplementedError
   \<and> validate_schema_constraint postgres_project (''shop'', ''orders'') ''relationships'' [to_customers] =
       ([Print (''VALIDATE REFERENTIAL INTEGRITY '' @ dq ''orders'' @ ''.'' @ dq ''customer_id''
                @ '' to '' @ dq ''customers'' @ ''.'' @ dq ''id'')],
        Some (unknown_target_type ''postgres''))
   \<and> validate_schema (postgres_project\<lparr>python2 := True\<rparr>) shop_schemas all_enabled =
       ([Print (''VALIDATE NOT NULL '' @ dq ''orders'' @ ''.'' @ dq ''id''),
         Print (''ERRROR: Unknown target type '' @ quoted ''postgres''),
         Print (''VALIDATE UNIQUE '' @ dq ''orders'' @ ''.'' @ dq ''id''),
         Print (''ERRROR: Unknown target type '' @ quoted ''postgres''),
         Print (''VALIDATE UNIQUE '' @ dq ''customers'' @ ''.'' @ dq ''id''),
         Print (''ERRROR: Unknown target type '' @ quoted ''postgres'')],
        None)
   \<and> validate_schema postgres_project shop_schemas all_enabled =
       ([Print (''VALIDATE NOT NULL '' @ dq ''orders'' @ ''.'' @ dq ''id'')],
        Some (raise_new AttributeError
                (quoted ''NotImplementedError'' @ '' object has no attribute '' @ quoted ''message'')))
   \<and> snd (validate_schema postgres_project shop_schemas all_enabled)
       \<noteq> Some (unknown_target_type ''postgres'')"
  by (simp add: run_defs postgres_project_def shop_schemas_def all_enabled_def dq_def
      unknown_target_type_def raise_new_def quoted_def to_customers_def)

lemma for_each_obs_map:
  assumes "\<And>a b. obs (a @ b) = obs a @ obs b"
    and "\<And>x. x \<in> set xs \<Longrightarrow> snd (b1 (f x)) = snd (b2 x) \<and> obs (fst (b1 (f x))) = obs (fst (b2 x))"
  shows "snd (for_each b1 (map f xs)) = snd (for_each b2 xs)
       \<and> obs (fst (for_each b1 (map f xs))) = obs (fst (for_each b2 xs))"
  using assms(2)
  by (induction xs) (simp_all add: for_each_Cons_if assms(1) del: for_each.simps(2))

lemma for_each_obs_filter:
  assumes "\<And>a b. obs (a @ b) = obs a @ obs b"
    and "\<And>x. \<not> P x \<Longrightarrow> snd (body x) = None \<and> obs (fst (body x)) = []"
  shows "snd (for_each body (filter P xs)) = snd (for_each body xs)
       \<and> obs (fst (for_each body (filter P xs))) = obs (fst (for_each body xs))"
  using assms(2)
  by (induction xs) (simp_all add: for_each_Cons_if assms(1) del: for_each.simps(2))

lemma dispatch_unknown:
  "ct \<notin> {''not_null'', ''unique'', ''relationships''} \<Longrightarrow>
   validate_schema_constraint p model ct cd = ([], Some (invalid_constraint ct model))"
  by (simp add: validate_schema_constraint_def constraint_map_def)

lemma invalid_constraint_class [simp]:
  "isinstance_RuntimeError (cls (invalid_constraint ct model))"
  by (simp add: invalid_constraint_def raise_new_def)

lemma try_constraint_unknown:
  "ct \<notin> {''not_null'', ''unique'', ''relationships''} \<Longrightarrow> python2 p \<Longrightarrow>
   try_constraint p model (ct, cd) =
     ([Print (''ERRROR: '' @ arg (invalid_constraint ct model))], None)"
  by (simp add: try_constraint_def dispatch_unknown read_message_def)
     (simp add: invalid_constraint_def raise_new_def)

lemma try_constraint_unknown_no_message:
  "ct \<notin> {''not_null'', ''unique'', ''relationships''} \<Longrightarrow> \<not> python2 p \<Longrightarrow>
   try_constraint p model (ct, cd) =
     ([], Some (raise_new AttributeError
                  (quoted ''RuntimeError'' @ '' object has no attribute '' @ quoted ''message'')))"
  by (simp add: try_constraint_def dispatch_unknown read_message_def)
     (simp add: invalid_constraint_def raise_new_def quoted_def)

lemma run_without_unknown_type:
  assumes add: "\<And>a b. obs (a @ b) = obs a @ obs b" and pr: "\<And>line. obs [Print line] = []"
    and ct: "ct \<notin> {''not_null'', ''unique'', ''relationships''}" and py: "python2 p"
  shows "snd (validate_schema p (without_constraint_type ct schemas) compiler) =
           snd (validate_schema p schemas compiler)
       \<and> obs (fst (validate_schema p (without_constraint_type ct schemas) compiler)) =
           obs (fst (validate_schema p schemas compiler))"
proof -
  have constraints: "snd (for_each (try_constraint p model) (filter (\<lambda>c. fst c \<noteq> ct) cs)) =
           snd (for_each (try_constraint p model) cs)
       \<and> obs (fst (for_each (try_constraint p model) (filter (\<lambda>c. fst c \<noteq> ct) cs))) =
           obs (fst (for_each (try_constraint p model) cs))" for model cs
  proof (rule for_each_obs_filter [OF add])
    fix x :: "string \<times> entry list"
    assume "\<not> fst x \<noteq> ct"
    then have "x = (ct, snd x)" by (cases x) simp
    then have "try_constraint p model x =
        ([Print (''ERRROR: '' @ arg (invalid_constraint ct model))], None)"
      using try_constraint_unknown [OF ct py, of model "snd x"] by simp
    then show "snd (try_constraint p model x) = None \<and> obs (fst (try_constraint p model x)) = []"
      by (simp add: pr)
  qed
  have nil: "obs [] = []" using add [of "[]" "[]"] by simp
  have model: "snd (validate_model p compiler g (fst m, filter (\<lambda>c. fst c \<noteq> ct) (snd m))) =
           snd (validate_model p compiler g m)
       \<and> obs (fst (validate_model p compiler g (fst m, filter (\<lambda>c. fst c \<noteq> ct) (snd m)))) =
           obs (fst (validate_model p compiler g m))" for g m
    using constraints [of "(g, fst m)" "snd m"] by (simp add: validate_model_def)
  have group: "snd (for_each (validate_model p compiler g)
                      (map (\<lambda>m. (fst m, filter (\<lambda>c. fst c \<noteq> ct) (snd m))) ms)) =
           snd (for_each (validate_model p compiler g) ms)
       \<and> obs (fst (for_each (validate_model p compiler g)
                      (map (\<lambda>m. (fst m, filter (\<lambda>c. fst c \<noteq> ct) (snd m))) ms))) =
           obs (fst (for_each (validate_model p compiler g) ms))" for g ms
    by (rule for_each_obs_map [OF add]) (rule model)
  show ?thesis
    unfolding validate_schema_def without_constraint_type_def
    by (rule for_each_obs_map [OF add]) (simp add: group)
qed

lemma unknown_constraint_type_python2:
  assumes "ct \<notin> {''not_null'', ''unique'', ''relationships''}" and "python2 p"
  shows "validate_schema_constraint p model ct cd = ([], Some (invalid_constraint ct model))
    \<and> arg (invalid_constraint ct model) =
        ''Invalid constraint '' @ quoted ct @ '' specified for '' @ quoted (str_model model)
        @ '' in schema.yml''
    \<and> isinstance_RuntimeError (cls (invalid_constraint ct model))
    \<and> for_each (try_constraint p model) (earlier @ (ct, cd) # later) =
        (case for_each (try_constraint p model) earlier of
           (evs, Some e) \<Rightarrow> (evs, Some e)
         | (evs, None) \<Rightarrow>
             (evs @ Print (''ERRROR: '' @ arg (invalid_constraint ct model))
                # fst (for_each (try_constraint p model) later),
              snd (for_each (try_constraint p model) later)))
    \<and> snd (validate_schema p schemas compiler) =
        snd (validate_schema p (without_constraint_type ct schemas) compiler)
    \<and> executed (fst (validate_schema p schemas compiler)) =
        executed (fst (validate_schema p (without_constraint_type ct schemas) compiler))
    \<and> yielded (fst (validate_schema p schemas compiler)) =
        yielded (fst (validate_schema p (without_constraint_type ct schemas) compiler))"
proof -
  have m: "arg (invalid_constraint ct model) =
        ''Invalid constraint '' @ quoted ct @ '' specified for '' @ quoted (str_model model)
        @ '' in schema.yml''"
    by (simp add: invalid_constraint_def raise_new_def)
  have loop: "for_each (try_constraint p model) (earlier @ (ct, cd) # later) =
        (case for_each (try_constraint p model) earlier of
           (evs, Some e) \<Rightarrow> (evs, Some e)
         | (evs, None) \<Rightarrow>
             (evs @ Print (''ERRROR: '' @ arg (invalid_constraint ct model))
                # fst (for_each (try_constraint p model) later),
              snd (for_each (try_constraint p model) later)))"
    by (simp add: for_each_append try_constraint_unknown [OF assms] split: prod.splits option.splits)
  note ex = run_without_unknown_type [where obs = executed, OF executed_append _ assms, of schemas compiler]
  note yi = run_without_unknown_type [where obs = yielded, OF yielded_append _ assms, of schemas compiler]
  from dispatch_unknown [OF assms(1), of p model cd] m loop ex yi show ?thesis by simp
qed

text \<open>
  C5. For a constraint type outside \<open>not_null\<close>, \<open>unique\<close>, \<open>relationships\<close> the
  dispatcher raises a \<^verbatim>\<open>RuntimeError\<close> that names the type and the model, and
  the \<^verbatim>\<open>except\<close> clause of \<^verbatim>\<open>validate_schema\<close> is there to report it
  and go on. It reads \<^verbatim>\<open>e.message\<close>, which the error has under Python 2 only:
  there the error is reported and the run goes on (the lemma above). Under Python 3,
  with the unknown type \<open>not_a_real_constraint\<close> declared first for \<open>orders\<close>, the
  read raises \<^verbatim>\<open>AttributeError\<close>: nothing is reported, the run ends there, and
  the \<open>unique\<close> constraints of \<open>orders\<close> and of \<open>customers\<close> are not evaluated.
\<close>

theorem unknown_constraint_type_ends_run_python3:
  "validate_schema_constraint (redshift_project (\<lambda>sql. Fetched (Some [0]))) (''shop'', ''orders'')
     ''not_a_real_constraint'' [Scalar ''id''] =
     ([], Some (invalid_constraint ''not_a_real_constraint'' (''shop'', ''orders'')))
   \<and> cls (invalid_constraint ''not_a_real_constraint'' (''shop'', ''orders'')) = RuntimeError
   \<and> arg (invalid_constraint ''not_a_real_constraint'' (''shop'', ''orders'')) =
       ''Invalid constraint '' @ quoted ''not_a_real_constraint'' @ '' specified for ''
       @ quoted (''('' @ quoted ''shop'' @ '', '' @ quoted ''orders'' @ '')'') @ '' in schema.yml''
   \<and> validate_schema (redshift_project (\<lambda>sql. Fetched (Some [0]))) shop_schemas_with_typo all_enabled =
       ([], Some (raise_new AttributeError
                    (quoted ''RuntimeError'' @ '' object has no attribute '' @ quoted ''message'')))
   \<and> printed (fst (validate_schema ((redshift_project (\<lambda>sql. Fetched (Some [0])))\<lparr>python2 := True\<rparr>)
                     shop_schemas_with_typo all_enabled)) =
       [''ERRROR: Invalid constraint '' @ quoted ''not_a_real_constraint'' @ '' specified for ''
          @ quoted (''('' @ quoted ''shop'' @ '', '' @ quoted ''orders'' @ '')'') @ '' in schema.yml'',
        ''VALIDATE UNIQUE '' @ dq ''orders'' @ ''.'' @ dq ''id'', ''  OK'',
        ''VALIDATE UNIQUE '' @ dq ''customers'' @ ''.'' @ dq ''id'', ''  OK'']
   \<and> yielded (fst (validate_schema ((redshift_project (\<lambda>sql. Fetched (Some [0])))\<lparr>python2 := True\<rparr>)
                     shop_schemas_with_typo all_enabled)) =
       [(''shop'', ''orders''), (''shop'', ''customers'')]"
  by (simp add: run_defs redshift_project_def shop_schemas_with_typo_def all_enabled_def dq_def
      invalid_constraint_def raise_new_def str_model_def py_repr_def repr_char_def quoted_def)

lemma validate_model_disabled:
  "\<not> compiler g (fst m) \<Longrightarrow> validate_model p compiler g m = ([], None)"
  by (simp add: validate_model_def)

lemma validate_schema_enabled_only:
  "validate_schema p (enabled_only compiler schemas) compiler = validate_schema p schemas compiler"
proof -
  have "for_each (validate_model p compiler g) (filter (\<lambda>m. compiler g (fst m)) ms) =
        for_each (validate_model p compiler g) ms" for g ms
    by (rule for_each_filter) (simp add: validate_model_disabled)
  then show ?thesis
    by (simp add: validate_schema_def enabled_only_def for_each_map)
qed

lemma try_constraint_event_yield:
  assumes "Yield m \<in> set (fst (try_constraint p model c))"
  shows "m = model"
proof -
  from assms have "m \<in> set (yielded (fst (try_constraint p model c)))"
    by (simp add: yielded_mem)
  then show ?thesis by (simp add: try_constraint_yielded split: if_splits)
qed

lemma validate_schema_yields_enabled:
  assumes "m \<in> set (yielded (fst (validate_schema p schemas compiler)))"
  shows "compiler (fst m) (snd m)"
proof -
  from assms have "Yield m \<in> set (fst (validate_schema p schemas compiler))"
    by (simp add: yielded_mem)
  then obtain g where "Yield m \<in> set (fst (for_each (validate_model p compiler (fst g)) (snd g)))"
    unfolding validate_schema_def by (blast dest: for_each_event)
  then obtain d where d: "Yield m \<in> set (fst (validate_model p compiler (fst g) d))"
    by (blast dest: for_each_event)
  then have en: "compiler (fst g) (fst d)"
    by (auto simp: validate_model_def split: if_splits)
  with d obtain c where "Yield m \<in> set (fst (try_constraint p (fst g, fst d) c))"
    by (auto simp: validate_model_def dest: for_each_event)
  then have "m = (fst g, fst d)" by (rule try_constraint_event_yield)
  with en show ?thesis by simp
qed

text \<open>
  C9. A model whose configuration has \<open>enabled\<close> false is skipped whole: its turn in
  the loop does nothing, the whole run is the run over the declarations without the
  disabled models (so none of its constraints is evaluated or reported), and its
  identifier is never yielded.
\<close>

theorem disabled_model_skipped:
  "(\<not> compiler g n \<longrightarrow> validate_model p compiler g (n, cs) = ([], None))
   \<and> validate_schema p schemas compiler = validate_schema p (enabled_only compiler schemas) compiler
   \<and> (\<not> compiler g n \<longrightarrow> (g, n) \<notin> set (yielded (fst (validate_schema p schemas compiler))))"
  using validate_model_disabled [of compiler g "(n, cs)" p]
    validate_schema_enabled_only [of p compiler schemas]
    validate_schema_yields_enabled [of "(g, n)" p schemas compiler]
  by auto

theorem disabled_model_skipped_witness:
  "\<not> orders_disabled ''shop'' ''orders''
   \<and> fst (validate_schema (redshift_project (\<lambda>sql. Fetched (Some [3]))) shop_schemas orders_disabled) =
     [Print (''VALIDATE UNIQUE '' @ dq ''customers'' @ ''.'' @ dq ''id''),
      Execute (case make_query QUERY_VALIDATE_UNIQUE
                      (get_query_params (redshift_project (\<lambda>sql. Fetched (Some [3]))) ''customers'' ''id'')
               of Inr sql \<Rightarrow> sql | Inl e \<Rightarrow> []),
      Print ''  FAILED (3)'',
      Yield (''shop'', ''customers'')]
   \<and> (''shop'', ''orders'') \<notin> set (yielded (fst (validate_schema
         (redshift_project (\<lambda>sql. Fetched (Some [3]))) shop_schemas orders_disabled)))"
proof -
  have h: "\<not> orders_disabled ''shop'' ''orders''" by (simp add: orders_disabled_def)
  have three: "string_of_int 3 = ''3''"
    by code_simp
  show ?thesis
    using h disabled_model_skipped
      [of orders_disabled "''shop''" "''orders''" "redshift_project (\<lambda>sql. Fetched (Some [3]))"
          "[]" shop_schemas]
    by (simp add: run_defs redshift_project_def shop_schemas_def orders_disabled_def dq_def three
        enabled_only_def)
qed

lemma for_each_concat: "for_each body (concat xss) = for_each (\<lambda>xs. for_each body xs) xss"
  by (induction xss) (simp_all add: for_each_append split: prod.splits option.splits)

lemma validate_schema_declared:
  "validate_schema p schemas compiler = for_each (model_body p compiler) (declared schemas)"
proof -
  have "validate_model p compiler g = (\<lambda>m. model_body p compiler ((g, fst m), snd m))" for g
    by (auto simp: fun_eq_iff validate_model_def model_body_def)
  then show ?thesis
    by (simp add: validate_schema_def declared_def for_each_concat for_each_map)
qed

lemma yielded_concat: "yielded (concat xs) = concat (map yielded xs)"
  by (induction xs) simp_all

lemma constraints_yielded:
  assumes "snd (for_each (try_constraint p model) cs) = None"
  shows "yielded (fst (for_each (try_constraint p model) cs)) =
         map (\<lambda>c. model) (filter (dispatched_ok p model) cs)"
proof -
  have "concat (map (\<lambda>c. yielded (fst (try_constraint p model c))) cs) =
        map (\<lambda>c. model) (filter (dispatched_ok p model) cs)"
    by (induction cs) (simp_all add: try_constraint_yielded dispatched_ok_def)
  with for_each_completes_events [OF assms] show ?thesis
    by (simp add: yielded_concat comp_def)
qed

lemma model_body_yielded:
  assumes "snd (model_body p compiler d) = None"
  shows "yielded (fst (model_body p compiler d)) =
         (if compiler (fst (fst d)) (snd (fst d))
          then map (\<lambda>c. fst d) (filter (dispatched_ok p (fst d)) (snd d)) else [])"
  using assms by (auto simp: model_body_def constraints_yielded)

lemma run_yields:
  assumes "snd (validate_schema p schemas compiler) = None"
  shows "yielded (fst (validate_schema p schemas compiler)) = expected_yields p compiler schemas"
proof -
  from assms have fin: "snd (for_each (model_body p compiler) (declared schemas)) = None"
    by (simp add: validate_schema_declared)
  then have each: "\<forall>d\<in>set (declared schemas). snd (model_body p compiler d) = None"
    by (simp add: for_each_completes_iff)
  have "yielded (fst (for_each (model_body p compiler) (declared schemas))) =
        concat (map (\<lambda>d. yielded (fst (model_body p compiler d))) (declared schemas))"
    using for_each_completes_events [OF fin] by (simp add: yielded_concat comp_def)
  also have "\<dots> = expected_yields p compiler schemas"
    unfolding expected_yields_def
    using each by (intro arg_cong [where f = concat] map_cong refl) (simp add: model_body_yielded)
  finally show ?thesis by (simp add: validate_schema_declared)
qed

lemma try_constraint_completes:
  "dispatched_ok p model c \<Longrightarrow> snd (try_constraint p model c) = None"
  by (auto simp: dispatched_ok_def try_constraint_def split: prod.splits option.splits)

lemma run_one_constraint_each:
  assumes "\<forall>d\<in>set (declared schemas).
             compiler (fst (fst d)) (snd (fst d)) \<and> length (snd d) = 1
             \<and> (\<forall>c\<in>set (snd d). dispatched_ok p (fst d) c)"
  shows "snd (validate_schema p schemas compiler) = None
       \<and> yielded (fst (validate_schema p schemas compiler)) = map fst (declared schemas)"
proof -
  have body: "snd (model_body p compiler d) = None" if "d \<in> set (declared schemas)" for d
    using assms that
    by (auto simp: model_body_def for_each_completes_iff try_constraint_completes)
  then have fin: "snd (validate_schema p schemas compiler) = None"
    by (simp add: validate_schema_declared for_each_completes_iff)
  have one: "(if compiler (fst (fst d)) (snd (fst d))
                       then map (\<lambda>c. fst d) (filter (dispatched_ok p (fst d)) (snd d))
                       else []) = [fst d]" if "d \<in> set (declared schemas)" for d
  proof -
    from assms that have en: "compiler (fst (fst d)) (snd (fst d))" and len: "length (snd d) = 1"
      and ok: "\<forall>c\<in>set (snd d). dispatched_ok p (fst d) c" by auto
    from len obtain c where "snd d = [c]" by (cases "snd d") auto
    with en ok show ?thesis by simp
  qed
  have "expected_yields p compiler schemas = concat (map (\<lambda>d. [fst d]) (declared schemas))"
    unfolding expected_yields_def
    by (intro arg_cong [where f = concat] map_cong refl) (rule one)
  also have "\<dots> = map fst (declared schemas)"
    by (induction "declared schemas") simp_all
  finally show ?thesis using fin run_yields [OF fin] by simp
qed


lemma count_list_const_map: "count_list (map (\<lambda>c. m) zs) m = length zs"
  by (induction zs) simp_all

lemma count_list_concat_own:
  assumes "distinct (map fst ds)" and "(m, cs) \<in> set ds" and "\<And>d. set (F d) \<subseteq> {fst d}"
  shows "count_list (concat (map F ds)) m = count_list (F (m, cs)) m"
  using assms(1,2)
proof (induction ds)
  case Nil
  then show ?case by simp
next
  case (Cons d ds)
  have absent: "count_list (concat (map F ds')) m = 0" if "m \<notin> fst ` set ds'" for ds'
  proof -
    have "m \<notin> set (concat (map F ds'))"
    proof
      assume "m \<in> set (concat (map F ds'))"
      then obtain d' where "d' \<in> set ds'" "m \<in> set (F d')" by auto
      with assms(3) [of d'] have "m = fst d'" by auto
      with \<open>d' \<in> set ds'\<close> that show False by auto
    qed
    then show ?thesis by (simp add: count_list_0_iff)
  qed
  show ?case
  proof (cases "d = (m, cs)")
    case True
    with Cons.prems have "m \<notin> fst ` set ds" by auto
    with True absent show ?thesis by simp
  next
    case False
    with Cons.prems have mem: "(m, cs) \<in> set ds" and "fst d \<notin> fst ` set ds" by auto
    from mem have "m \<in> fst ` set ds" by force
    with \<open>fst d \<notin> fst ` set ds\<close> have "fst d \<noteq> m" by auto
    with assms(3) [of d] have "m \<notin> set (F d)" by auto
    then have "count_list (F d) m = 0" by (simp add: count_list_0_iff)
    with Cons mem show ?thesis by simp
  qed
qed

lemma run_yield_count:
  assumes fin: "snd (validate_schema p schemas compiler) = None"
    and "distinct (map fst (declared schemas))" and "(model, cs) \<in> set (declared schemas)"
    and "compiler (fst model) (snd model)"
  shows "count_list (yielded (fst (validate_schema p schemas compiler))) model =
         length (filter (dispatched_ok p model) cs)"
proof -
  let ?F = "\<lambda>d. if compiler (fst (fst d)) (snd (fst d))
                       then map (\<lambda>c. fst d) (filter (dispatched_ok p (fst d)) (snd d))
                       else []"
  have "set (?F d) \<subseteq> {fst d}" for d by auto
  from count_list_concat_own [of "declared schemas" model cs ?F, OF assms(2,3) this]
  have "count_list (expected_yields p compiler schemas) model = count_list (?F (model, cs)) model"
    by (simp add: expected_yields_def)
  with assms(4) run_yields [OF fin] show ?thesis by (simp add: count_list_const_map)
qed

lemma dispatched_ok_whatever_counts:
  assumes "target_type p = ''redshift''" and "handle_raises p = None"
    and "\<forall>sql. \<exists>num_rows. cursor p sql = Fetched (Some [num_rows])"
  shows "dispatched_ok p model (''not_null'', cd) \<and> dispatched_ok p model (''unique'', cd)"
proof -
  have r: "snd (execute_and_report p model heading sql) = None" for heading sql
  proof -
    from assms(3) obtain k where "cursor p sql = Fetched (Some [k])" by blast
    with assms(1,2) show ?thesis
      by (simp add: execute_and_report_def execute_query_def get_target_def)
  qed
  show ?thesis
    by (simp add: dispatched_ok_def validate_schema_constraint_def constraint_map_def
        validate_not_null_def validate_unique_def for_each_completes_iff not_null_entry_def
        unique_entry_def make_query_not_null make_query_unique r)
qed

lemma for_each_obs_prefix:
  assumes add: "\<And>a b. obs (a @ b) = obs a @ obs b"
    and step: "\<And>x. (snd (body x) = None \<longrightarrow> obs (fst (body x)) = E x)
                 \<and> (\<exists>r. E x = obs (fst (body x)) @ r)"
  shows "(snd (for_each body xs) = None \<longrightarrow> obs (fst (for_each body xs)) = concat (map E xs))
       \<and> (\<exists>r. concat (map E xs) = obs (fst (for_each body xs)) @ r)"
proof (induction xs)
  case Nil
  have "obs [] = []" using add [of "[]" "[]"] by simp
  then show ?case by simp
next
  case (Cons x xs)
  from Cons obtain r where r: "concat (map E xs) = obs (fst (for_each body xs)) @ r" by blast
  from step [of x] obtain r' where r': "E x = obs (fst (body x)) @ r'" by blast
  show ?case
  proof (cases "snd (body x) = None")
    case True
    with step [of x] have "obs (fst (body x)) = E x" by simp
    with True Cons r show ?thesis
      by (simp add: for_each_Cons_if add del: for_each.simps(2))
  next
    case False
    then have "for_each body (x # xs) = body x"
      by (auto simp: for_each_Cons_if simp del: for_each.simps(2))
    with False r' show ?thesis by (auto simp del: for_each.simps(2))
  qed
qed

lemma constraints_yield_prefix:
  "(snd (for_each (try_constraint p model) cs) = None \<longrightarrow>
      yielded (fst (for_each (try_constraint p model) cs)) =
      map (\<lambda>c. model) (filter (dispatched_ok p model) cs))
   \<and> (\<exists>r. map (\<lambda>c. model) (filter (dispatched_ok p model) cs) =
          yielded (fst (for_each (try_constraint p model) cs)) @ r)"
proof -
  have "concat (map (\<lambda>c. if dispatched_ok p model c then [model] else []) cs) =
        map (\<lambda>c. model) (filter (dispatched_ok p model) cs)"
    by (induction cs) simp_all
  with for_each_obs_prefix [where obs = yielded and body = "try_constraint p model"
      and E = "\<lambda>c. if dispatched_ok p model c then [model] else []" and xs = cs]
  show ?thesis
    by (simp add: try_constraint_yielded dispatched_ok_def)
qed

lemma run_yield_prefix:
  "\<exists>r. expected_yields p compiler schemas = yielded (fst (validate_schema p schemas compiler)) @ r"
proof -
  let ?E = "\<lambda>d. if compiler (fst (fst d)) (snd (fst d))
                       then map (\<lambda>c. fst d) (filter (dispatched_ok p (fst d)) (snd d))
                       else []"
  have "(snd (model_body p compiler d) = None \<longrightarrow> yielded (fst (model_body p compiler d)) = ?E d)
                 \<and> (\<exists>r. ?E d = yielded (fst (model_body p compiler d)) @ r)" for d
    using constraints_yield_prefix [of p "fst d" "snd d"] by (simp add: model_body_def)
  from for_each_obs_prefix [where obs = yielded and body = "model_body p compiler" and E = ?E,
      OF yielded_append this]
  show ?thesis by (simp add: validate_schema_declared expected_yields_def)
qed

text \<open>
  C6. A run yields one model identifier for each successfully dispatched constraint
  type of each enabled model, in order: all of them when the run ends without an
  exception, those before the exception otherwise. When every
  declared model is enabled and declares exactly one constraint type, which dispatches
  successfully, the run yields exactly the declared models, as many identifiers as there
  are models. A model (declared once) with \<open>k\<close> successfully dispatched constraint types
  is yielded \<open>k\<close> times. Whether a check passes does not matter: whatever counts the
  statements return, the dispatch of a \<open>not_null\<close> or \<open>unique\<close> constraint succeeds.
\<close>

theorem yields_track_successful_dispatch:
  "(\<exists>rest. expected_yields p compiler schemas =
             yielded (fst (validate_schema p schemas compiler)) @ rest)
   \<and> (snd (validate_schema p schemas compiler) = None
    \<longrightarrow> yielded (fst (validate_schema p schemas compiler)) = expected_yields p compiler schemas)
   \<and> ((\<forall>d\<in>set (declared schemas).
          compiler (fst (fst d)) (snd (fst d)) \<and> length (snd d) = 1
          \<and> (\<forall>c\<in>set (snd d). dispatched_ok p (fst d) c))
      \<longrightarrow> snd (validate_schema p schemas compiler) = None
        \<and> yielded (fst (validate_schema p schemas compiler)) = map fst (declared schemas)
        \<and> length (yielded (fst (validate_schema p schemas compiler))) = length (declared schemas))
   \<and> (snd (validate_schema p schemas compiler) = None \<and> distinct (map fst (declared schemas))
       \<and> (model, cs) \<in> set (declared schemas) \<and> compiler (fst model) (snd model)
      \<longrightarrow> count_list (yielded (fst (validate_schema p schemas compiler))) model =
          length (filter (dispatched_ok p model) cs))
   \<and> (target_type p = ''redshift'' \<and> handle_raises p = None
       \<and> (\<forall>sql. \<exists>num_rows. cursor p sql = Fetched (Some [num_rows]))
      \<longrightarrow> dispatched_ok p model (''not_null'', cd) \<and> dispatched_ok p model (''unique'', cd))"
proof (intro conjI impI)
  show "\<exists>rest. expected_yields p compiler schemas =
             yielded (fst (validate_schema p schemas compiler)) @ rest"
    by (rule run_yield_prefix)
next
  assume "snd (validate_schema p schemas compiler) = None"
  then show "yielded (fst (validate_schema p schemas compiler)) = expected_yields p compiler schemas"
    by (rule run_yields)
next
  assume a: "\<forall>d\<in>set (declared schemas).
          compiler (fst (fst d)) (snd (fst d)) \<and> length (snd d) = 1
          \<and> (\<forall>c\<in>set (snd d). dispatched_ok p (fst d) c)"
  from run_one_constraint_each [OF a]
  show "snd (validate_schema p schemas compiler) = None"
    and "yielded (fst (validate_schema p schemas compiler)) = map fst (declared schemas)"
    and "length (yielded (fst (validate_schema p schemas compiler))) = length (declared schemas)"
    by simp_all
next
  assume "snd (validate_schema p schemas compiler) = None \<and> distinct (map fst (declared schemas))
       \<and> (model, cs) \<in> set (declared schemas) \<and> compiler (fst model) (snd model)"
  then show "count_list (yielded (fst (validate_schema p schemas compiler))) model =
          length (filter (dispatched_ok p model) cs)"
    by (simp add: run_yield_count)
next
  assume a: "target_type p = ''redshift'' \<and> handle_raises p = None
       \<and> (\<forall>sql. \<exists>num_rows. cursor p sql = Fetched (Some [num_rows]))"
  then have "dispatched_ok p model (''not_null'', cd) \<and> dispatched_ok p model (''unique'', cd)"
    by (intro dispatched_ok_whatever_counts) simp_all
  then show "dispatched_ok p model (''not_null'', cd)" and "dispatched_ok p model (''unique'', cd)"
    by simp_all
qed

theorem yields_track_successful_dispatch_witness:
  "yielded (fst (validate_schema (redshift_project (\<lambda>sql. Fetched (Some [3]))) shop_schemas all_enabled)) =
     [(''shop'', ''orders''), (''shop'', ''orders''), (''shop'', ''customers'')]
   \<and> count_list (yielded (fst (validate_schema (redshift_project (\<lambda>sql. Fetched (Some [3])))
                                 shop_schemas all_enabled))) (''shop'', ''orders'') = 2
   \<and> yielded (fst (validate_schema (redshift_project (\<lambda>sql. Fetched (Some [3])))
                    one_constraint_each all_enabled)) =
     [(''shop'', ''orders''), (''shop'', ''customers'')]"
proof -
  let ?p = "redshift_project (\<lambda>sql. Fetched (Some [3]))"
  have p: "target_type ?p = ''redshift''" "handle_raises ?p = None"
    "\<forall>sql. \<exists>num_rows. cursor ?p sql = Fetched (Some [num_rows])"
    by (simp_all add: redshift_project_def)
  have ok: "dispatched_ok ?p model (''not_null'', cd)" "dispatched_ok ?p model (''unique'', cd)"
    for model cd
    using yields_track_successful_dispatch [of ?p all_enabled "[]" model "[]" cd] p by simp_all
  have fin: "snd (validate_schema ?p shop_schemas all_enabled) = None"
    by (simp add: run_defs redshift_project_def shop_schemas_def all_enabled_def Let_def)
  have d: "distinct (map fst (declared shop_schemas))"
    "((''shop'', ''orders''), [(''not_null'', [Scalar ''id'', Scalar ''customer_id'']), (''unique'', [Scalar ''id''])])
       \<in> set (declared shop_schemas)"
    "all_enabled (fst (''shop'', ''orders'')) (snd (''shop'', ''orders''))"
    by (simp_all add: declared_def shop_schemas_def all_enabled_def)
  have one: "\<forall>d\<in>set (declared one_constraint_each).
          all_enabled (fst (fst d)) (snd (fst d)) \<and> length (snd d) = 1
          \<and> (\<forall>c\<in>set (snd d). dispatched_ok ?p (fst d) c)"
    by (simp add: declared_def one_constraint_each_def all_enabled_def ok)
  note shop = yields_track_successful_dispatch [of ?p all_enabled shop_schemas "(''shop'', ''orders'')"
      "[(''not_null'', [Scalar ''id'', Scalar ''customer_id'']), (''unique'', [Scalar ''id''])]" "[]"]
  from shop fin
  have a: "yielded (fst (validate_schema ?p shop_schemas all_enabled)) =
             expected_yields ?p all_enabled shop_schemas"
    by blast
  from shop fin d
  have b: "count_list (yielded (fst (validate_schema ?p shop_schemas all_enabled))) (''shop'', ''orders'') =
             length (filter (dispatched_ok ?p (''shop'', ''orders''))
               [(''not_null'', [Scalar ''id'', Scalar ''customer_id'']), (''unique'', [Scalar ''id''])])"
    by blast
  from yields_track_successful_dispatch [of ?p all_enabled one_constraint_each "(''shop'', ''orders'')" "[]" "[]"]
    one
  have c: "yielded (fst (validate_schema ?p one_constraint_each all_enabled)) =
             map fst (declared one_constraint_each)"
    by blast
  show ?thesis
    unfolding a b c
    by (simp add: expected_yields_def declared_def shop_schemas_def one_constraint_each_def
        all_enabled_def ok)
qed


end
